theory Spec2Isabelle
  imports Complex_Main "HOL-Library.Sublist" "HOL-Library.Word"
begin

section \<open>Text Extractor: the selection-to-text pipeline\<close>

text \<open>
  A shallow embedding of the browser extension's extraction pipeline:
  the OCR processor (\<^verbatim>\<open>lib/ocr-processor.js\<close>), the text extractor
  (\<^verbatim>\<open>content/text-extractor.js\<close>) and the selection overlay
  (\<^verbatim>\<open>content/selection-overlay.js\<close>).

  Conventions. JavaScript numbers are IEEE doubles; they are modelled by \<^typ>\<open>real\<close>,
  so rounding error, NaN and the infinities are outside the model (a division whose
  divisor may be zero is written out). Strings are \<^typ>\<open>string\<close>, one \<^typ>\<open>char\<close>
  per code unit below 256. Everything the page, the browser or the recognition
  engine decides is an input of the model: a snapshot record or an oracle field.
  A JavaScript exception is the \<open>Inl\<close> side of a sum, carrying the message.
\<close>

subsection \<open>OCR processor: the pixel loop of \<^verbatim>\<open>preprocessImage\<close>\<close>

text \<open>
  \<^verbatim>\<open>imageData.data\<close> is a \<^verbatim>\<open>Uint8ClampedArray\<close>: a read yields an integer in
  \<open>0..255\<close>; a write converts the number to a byte by clamping and rounding half to even.
\<close>

type_synonym byte = "8 word"

definition readByte :: "byte \<Rightarrow> real" where
  "readByte w = real (unat w)"

definition toUint8Clamp :: "real \<Rightarrow> byte" where
  "toUint8Clamp v =
     (let c = min 255 (max 0 v);
          f = \<lfloor>c\<rfloor>;
          n = (if c - of_int f < 1/2 then f
               else if 1/2 < c - of_int f then f + 1
               else if even f then f else f + 1)
      in of_nat (nat n))"

text \<open>\<^verbatim>\<open>Math.round\<close> rounds to the nearest integer, a half towards plus infinity.\<close>

definition Math_round :: "real \<Rightarrow> real" where
  "Math_round v = of_int \<lfloor>v + 1/2\<rfloor>"

text \<open>
  One iteration of the loop \<^verbatim>\<open>for (let i = 0; i < data.length; i += 4)\<close> on the
  four bytes \<open>data[i..i+3]\<close>. The result is the four bytes afterwards together with
  the log of the numbers assigned to \<open>data[i]\<close>, \<open>data[i+1]\<close>, \<open>data[i+2]\<close>, in program
  order (the right-hand sides, before the array converts them). The alpha byte is
  never written.
\<close>

definition grayscaleStep :: "byte \<times> byte \<times> byte \<Rightarrow> (byte \<times> byte \<times> byte) \<times> real list" where
  "grayscaleStep p =
     (case p of (r, g, b) \<Rightarrow>
        let gray = Math_round (0.299 * readByte r + 0.587 * readByte g + 0.114 * readByte b)
        in ((toUint8Clamp gray, toUint8Clamp gray, toUint8Clamp gray), [gray, gray, gray]))"

definition contrastStep :: "byte \<times> byte \<times> byte \<Rightarrow> (byte \<times> byte \<times> byte) \<times> real list" where
  "contrastStep p =
     (case p of (d0, d1, d2) \<Rightarrow>
        let factor = 1.2;
            avg = (readByte d0 + readByte d1 + readByte d2) / 3;
            v0 = min 255 (max 0 (avg + (readByte d0 - avg) * factor));
            v1 = min 255 (max 0 (avg + (readByte d1 - avg) * factor));
            v2 = min 255 (max 0 (avg + (readByte d2 - avg) * factor))
        in ((toUint8Clamp v0, toUint8Clamp v1, toUint8Clamp v2), [v0, v1, v2]))"

definition processPixel ::
  "bool \<Rightarrow> bool \<Rightarrow> byte \<times> byte \<times> byte \<Rightarrow> (byte \<times> byte \<times> byte) \<times> real list" where
  "processPixel grayscale enhanceContrast p =
     (let (p1, w1) = (if grayscale then grayscaleStep p else (p, []));
          (p2, w2) = (if enhanceContrast then contrastStep p1 else (p1, []))
      in (p2, w1 @ w2))"

text \<open>
  The whole loop over the flat RGBA array. An \<^verbatim>\<open>ImageData\<close> buffer has a length
  that is a multiple of four; a shorter tail is left as it is.
\<close>

fun pixelLoop :: "bool \<Rightarrow> bool \<Rightarrow> byte list \<Rightarrow> byte list \<times> real list" where
  "pixelLoop grayscale enhanceContrast (r # g # b # a # rest) =
     (let ((r', g', b'), w) = processPixel grayscale enhanceContrast (r, g, b);
          (rest', ws) = pixelLoop grayscale enhanceContrast rest
      in (r' # g' # b' # a # rest', w @ ws))"
| "pixelLoop grayscale enhanceContrast tail = (tail, [])"

text \<open>
  \<^verbatim>\<open>if (grayscale || enhanceContrast) { for ... }\<close>: the processed array and the
  log of written numbers.
\<close>

definition preprocessPixels :: "bool \<Rightarrow> bool \<Rightarrow> byte list \<Rightarrow> byte list \<times> real list" where
  "preprocessPixels grayscale enhanceContrast data =
     (if grayscale \<or> enhanceContrast then pixelLoop grayscale enhanceContrast data
      else (data, []))"

subsection \<open>Strings\<close>

abbreviation LF :: char where "LF \<equiv> CHR 0x0A"
abbreviation CR :: char where "CR \<equiv> CHR 0x0D"
abbreviation TAB :: char where "TAB \<equiv> CHR 0x09"

text \<open>
  The white space and line terminators that \<^verbatim>\<open>String.prototype.trim\<close> strips,
  among the code units below 256: tab, line feed, vertical tab, form feed, carriage
  return, space and no-break space.
\<close>

definition isWhiteSpace :: "char \<Rightarrow> bool" where
  "isWhiteSpace c =
     (c = TAB \<or> c = LF \<or> c = CHR 0x0B \<or> c = CHR 0x0C \<or> c = CR \<or> c = CHR 0x20 \<or> c = CHR 0xA0)"

definition trim :: "string \<Rightarrow> string" where
  "trim s = rev (dropWhile isWhiteSpace (rev (dropWhile isWhiteSpace s)))"

text \<open>\<^verbatim>\<open>Array.prototype.join\<close> on an array of strings.\<close>

fun join :: "string \<Rightarrow> string list \<Rightarrow> string" where
  "join sep [] = []"
| "join sep [p] = p"
| "join sep (p # q # ps) = p @ sep @ join sep (q # ps)"

text \<open>\<^verbatim>\<open>s.includes(t)\<close> on strings: \<open>t\<close> occurs in \<open>s\<close> as a contiguous run.\<close>

definition str_includes :: "string \<Rightarrow> string \<Rightarrow> bool" where
  "str_includes s t = sublist t s"

text \<open>
  \<^verbatim>\<open>s.replace(/\n{k,}/g, rep)\<close>: the pattern is greedy, so each match is a maximal
  run of line feeds of length at least \<open>k\<close>; every such run becomes \<open>rep\<close> and shorter
  runs stay. The scan carries the number \<open>n\<close> of line feeds read since the last other
  character.
\<close>

definition flushRun :: "nat \<Rightarrow> string \<Rightarrow> nat \<Rightarrow> string" where
  "flushRun k rep n = (if k \<le> n then rep else replicate n LF)"

fun replaceRuns :: "nat \<Rightarrow> string \<Rightarrow> nat \<Rightarrow> string \<Rightarrow> string" where
  "replaceRuns k rep n [] = flushRun k rep n"
| "replaceRuns k rep n (c # cs) =
     (if c = LF then replaceRuns k rep (Suc n) cs
      else flushRun k rep n @ c # replaceRuns k rep 0 cs)"

definition replaceNewlineRuns :: "nat \<Rightarrow> string \<Rightarrow> string \<Rightarrow> string" where
  "replaceNewlineRuns k rep s = replaceRuns k rep 0 s"

text \<open>\<^verbatim>\<open>s.replace(/\t/g, ' ')\<close>, \<^verbatim>\<open>s.replace(/\r\n/g, '\n')\<close> and \<^verbatim>\<open>s.replace(/\r/g, '\n')\<close>.\<close>

definition replaceTabs :: "string \<Rightarrow> string" where
  "replaceTabs s = map (\<lambda>c. if c = TAB then CHR 0x20 else c) s"

fun replaceCRLF :: "string \<Rightarrow> string" where
  "replaceCRLF (c # d # cs) =
     (if c = CR \<and> d = LF then LF # replaceCRLF cs else c # replaceCRLF (d # cs))"
| "replaceCRLF cs = cs"

definition replaceCR :: "string \<Rightarrow> string" where
  "replaceCR s = map (\<lambda>c. if c = CR then LF else c) s"

subsection \<open>Geometry\<close>

text \<open>
  A \<^verbatim>\<open>DOMRect\<close> as \<^verbatim>\<open>getBoundingClientRect\<close> returns it: width and height are
  not negative there, so \<open>right = left + width\<close> and \<open>bottom = top + height\<close>.
\<close>

record domRect =
  rect_left :: real
  rect_top :: real
  rect_width :: real
  rect_height :: real

definition rect_right :: "domRect \<Rightarrow> real" where
  "rect_right r = rect_left r + rect_width r"

definition rect_bottom :: "domRect \<Rightarrow> real" where
  "rect_bottom r = rect_top r + rect_height r"

record selectionData =
  sel_x :: real
  sel_y :: real
  sel_width :: real
  sel_height :: real
  viewportX :: real
  viewportY :: real
  viewportWidth :: real
  viewportHeight :: real

text \<open>The object literals \<^verbatim>\<open>{left, top, right, bottom}\<close> of the source.\<close>

record edges =
  e_left :: real
  e_top :: real
  e_right :: real
  e_bottom :: real

definition selectionRectOf :: "selectionData \<Rightarrow> edges" where
  "selectionRectOf selectionData =
     \<lparr> e_left = viewportX selectionData,
       e_top = viewportY selectionData,
       e_right = viewportX selectionData + viewportWidth selectionData,
       e_bottom = viewportY selectionData + viewportHeight selectionData \<rparr>"

definition edgesOf :: "domRect \<Rightarrow> edges" where
  "edgesOf rect =
     \<lparr> e_left = rect_left rect,
       e_top = rect_top rect,
       e_right = rect_left rect + rect_width rect,
       e_bottom = rect_top rect + rect_height rect \<rparr>"

definition overlaps :: "edges \<Rightarrow> edges \<Rightarrow> bool" where
  "overlaps r selectionRect =
     (\<not> (e_right r < e_left selectionRect \<or>
         e_left r > e_right selectionRect \<or>
         e_bottom r < e_top selectionRect \<or>
         e_top r > e_bottom selectionRect))"

record intersection =
  ix :: real
  iy :: real
  iwidth :: real
  iheight :: real

subsection \<open>The page snapshot\<close>

text \<open>
  What the extractor reads from the page during one call. An \<^verbatim>\<open>img\<close> element and
  an element returned by \<^verbatim>\<open>document.elementsFromPoint\<close> are records of the
  properties the code reads; \<open>el_img\<close> holds the image properties of an element whose
  \<^verbatim>\<open>tagName\<close> is \<^verbatim>\<open>IMG\<close> and is \<open>None\<close> for any other element.
\<close>

record img =
  img_src :: string
  img_currentSrc :: string
  img_alt :: string
  img_complete :: bool
  img_naturalWidth :: nat
  img_naturalHeight :: nat
  img_width :: nat
  img_height :: nat
  img_rect :: domRect

record element =
  el_img :: "img option"
  el_rect :: domRect
  el_backgroundImage :: string
  el_innerText :: string
  el_textContent :: string

text \<open>
  The tree under \<^verbatim>\<open>document.body\<close>: a text node with its \<^verbatim>\<open>textContent\<close> and
  the bounding rectangle of a range over its contents, an element with its bounding
  rectangle and child nodes, or a node of another kind (a comment).
\<close>

datatype node =
  TextNode string domRect
| ElementNode domRect "node list"
| OtherNode

record dom =
  dom_body :: "node list option"
  dom_imgs :: "img list"
  dom_elementsFromPoint :: "real \<Rightarrow> real \<Rightarrow> element list"

subsection \<open>Text extractor: \<^verbatim>\<open>detectImagesInSelection\<close>\<close>

datatype elementRef = ImgElement img | PageElement element

record imageInfo =
  ii_element :: elementRef
  ii_src :: string
  ii_alt :: string
  ii_type :: "string option"
  ii_naturalWidth :: "nat option"
  ii_naturalHeight :: "nat option"
  ii_displayWidth :: "real option"
  ii_displayHeight :: "real option"
  ii_rect :: domRect
  ii_intersection :: intersection
  ii_index :: "nat option"

text \<open>The body of \<^verbatim>\<open>imgElements.forEach((img, index) => ...)\<close> for one element.\<close>

definition imgCandidate :: "edges \<Rightarrow> nat \<times> img \<Rightarrow> imageInfo option" where
  "imgCandidate selectionRect p =
     (case p of (index, img) \<Rightarrow>
        let rect = img_rect img;
            imageRect = edgesOf rect
        in if overlaps imageRect selectionRect then
             let intersectionLeft = max (e_left selectionRect) (e_left imageRect);
                 intersectionTop = max (e_top selectionRect) (e_top imageRect);
                 intersectionRight = min (e_right selectionRect) (e_right imageRect);
                 intersectionBottom = min (e_bottom selectionRect) (e_bottom imageRect);
                 intersectionWidth = intersectionRight - intersectionLeft;
                 intersectionHeight = intersectionBottom - intersectionTop
             in if intersectionWidth > 10 \<and> intersectionHeight > 10 then
                  Some \<lparr> ii_element = ImgElement img,
                         ii_src = (if img_src img \<noteq> [] then img_src img else img_currentSrc img),
                         ii_alt = img_alt img,
                         ii_type = None,
                         ii_naturalWidth = Some (img_naturalWidth img),
                         ii_naturalHeight = Some (img_naturalHeight img),
                         ii_displayWidth = Some (rect_width rect),
                         ii_displayHeight = Some (rect_height rect),
                         ii_rect = rect,
                         ii_intersection =
                           \<lparr> ix = intersectionLeft, iy = intersectionTop,
                             iwidth = intersectionWidth, iheight = intersectionHeight \<rparr>,
                         ii_index = Some index \<rparr>
                else None
           else None)"

text \<open>
  \<^verbatim>\<open>bgImage.match(/url\(['"]?([^'"]+)['"]?\)/)\<close>, the first capture group. At a
  position where \<^verbatim>\<open>url(\<close> starts, an opening quote is consumed when there is one;
  the group is the longest non-empty run of characters other than quotes after which
  an optional quote and the closing parenthesis follow. The search takes the
  leftmost position that matches.
\<close>

definition isQuote :: "char \<Rightarrow> bool" where
  "isQuote c = (c = CHR 0x27 \<or> c = CHR 0x22)"

definition closesUrl :: "string \<Rightarrow> bool" where
  "closesUrl rest =
     (case rest of
        [] \<Rightarrow> False
      | c # cs \<Rightarrow>
          c = CHR '')'' \<or> (isQuote c \<and> (case cs of [] \<Rightarrow> False | d # ds \<Rightarrow> d = CHR '')'')))"

fun longestGroup :: "nat \<Rightarrow> string \<Rightarrow> string option" where
  "longestGroup 0 s = None"
| "longestGroup (Suc n) s =
     (if closesUrl (drop (Suc n) s) then Some (take (Suc n) s) else longestGroup n s)"

definition matchUrlAt :: "string \<Rightarrow> string option" where
  "matchUrlAt s =
     (if prefix ''url('' s then
        (let r = drop 4 s;
             r' = (case r of [] \<Rightarrow> [] | c # cs \<Rightarrow> if isQuote c then cs else r)
         in longestGroup (length (takeWhile (\<lambda>c. \<not> isQuote c) r')) r')
      else None)"

fun matchUrl :: "string \<Rightarrow> string option" where
  "matchUrl [] = None"
| "matchUrl (c # cs) =
     (case matchUrlAt (c # cs) of Some g \<Rightarrow> Some g | None \<Rightarrow> matchUrl cs)"

text \<open>The body of \<^verbatim>\<open>allElements.forEach((element) => ...)\<close> for one element.\<close>

definition bgCandidate :: "edges \<Rightarrow> element \<Rightarrow> imageInfo option" where
  "bgCandidate selectionRect el =
     (let bgImage = el_backgroundImage el
      in if bgImage \<noteq> [] \<and> bgImage \<noteq> ''none'' \<and> prefix ''url('' bgImage then
           (case matchUrl bgImage of
              None \<Rightarrow> None
            | Some url \<Rightarrow>
                if url \<noteq> [] then
                  let rect = el_rect el;
                      elementRect = edgesOf rect
                  in if overlaps elementRect selectionRect then
                       Some \<lparr> ii_element = PageElement el,
                              ii_src = url,
                              ii_alt = [],
                              ii_type = Some ''background-image'',
                              ii_naturalWidth = None,
                              ii_naturalHeight = None,
                              ii_displayWidth = None,
                              ii_displayHeight = None,
                              ii_rect = rect,
                              ii_intersection =
                                \<lparr> ix = max (e_left selectionRect) (e_left elementRect),
                                  iy = max (e_top selectionRect) (e_top elementRect),
                                  iwidth = min (e_right selectionRect) (e_right elementRect)
                                           - max (e_left selectionRect) (e_left elementRect),
                                  iheight = min (e_bottom selectionRect) (e_bottom elementRect)
                                            - max (e_top selectionRect) (e_top elementRect) \<rparr>,
                              ii_index = None \<rparr>
                     else None
                else None)
         else None)"

text \<open>
  The elements under the centre of the selection,
  \<^verbatim>\<open>document.elementsFromPoint(viewportX + viewportWidth / 2, viewportY + viewportHeight / 2)\<close>.
\<close>

definition elementsAtCentre :: "dom \<Rightarrow> selectionData \<Rightarrow> element list" where
  "elementsAtCentre d selectionData =
     dom_elementsFromPoint d
       (viewportX selectionData + viewportWidth selectionData / 2)
       (viewportY selectionData + viewportHeight selectionData / 2)"

definition detectImagesInSelection :: "dom \<Rightarrow> selectionData \<Rightarrow> imageInfo list" where
  "detectImagesInSelection d selectionData =
     (let selectionRect = selectionRectOf selectionData
      in List.map_filter (imgCandidate selectionRect) (enumerate 0 (dom_imgs d))
         @ List.map_filter (bgCandidate selectionRect) (elementsAtCentre d selectionData))"

subsection \<open>Text extractor: \<^verbatim>\<open>extractSelectableText\<close>\<close>

datatype filterResult = FILTER_ACCEPT | FILTER_REJECT | FILTER_SKIP

definition acceptNode :: "edges \<Rightarrow> node \<Rightarrow> filterResult" where
  "acceptNode selectionRect n =
     (case n of
        TextNode t rect \<Rightarrow>
          if rect_width rect > 0 \<and> rect_height rect > 0 then
            (if overlaps \<lparr> e_left = rect_left rect, e_top = rect_top rect,
                           e_right = rect_right rect, e_bottom = rect_bottom rect \<rparr> selectionRect
             then FILTER_ACCEPT else FILTER_REJECT)
          else FILTER_SKIP
      | ElementNode rect kids \<Rightarrow>
          if overlaps \<lparr> e_left = rect_left rect, e_top = rect_top rect,
                        e_right = rect_right rect, e_bottom = rect_bottom rect \<rparr> selectionRect
          then FILTER_ACCEPT else FILTER_SKIP
      | OtherNode \<Rightarrow> FILTER_SKIP)"

text \<open>
  The nodes a \<^verbatim>\<open>TreeWalker\<close> yields from the subtree of one node, in document
  order: an accepted node is yielded, a skipped node is not but its children are
  visited, a rejected node hides its subtree. \<^verbatim>\<open>whatToShow\<close> admits text and
  element nodes; another node is not shown to the filter.
\<close>

fun walk :: "(node \<Rightarrow> filterResult) \<Rightarrow> node \<Rightarrow> node list" where
  "walk f (ElementNode rect kids) =
     (case f (ElementNode rect kids) of
        FILTER_ACCEPT \<Rightarrow> ElementNode rect kids # concat (map (walk f) kids)
      | FILTER_SKIP \<Rightarrow> concat (map (walk f) kids)
      | FILTER_REJECT \<Rightarrow> [])"
| "walk f (TextNode t rect) =
     (case f (TextNode t rect) of
        FILTER_ACCEPT \<Rightarrow> [TextNode t rect]
      | FILTER_SKIP \<Rightarrow> []
      | FILTER_REJECT \<Rightarrow> [])"
| "walk f OtherNode = []"

text \<open>\<^verbatim>\<open>while (node = walker.nextNode())\<close>: the trimmed, non-empty contents of the text nodes.\<close>

fun collectText :: "node list \<Rightarrow> string list" where
  "collectText [] = []"
| "collectText (TextNode t rect # ns) =
     (let text = trim t in if text \<noteq> [] then text # collectText ns else collectText ns)"
| "collectText (n # ns) = collectText ns"

definition walkerTexts :: "node list \<Rightarrow> edges \<Rightarrow> string list" where
  "walkerTexts body selectionRect =
     collectText (concat (map (walk (acceptNode selectionRect)) body))"

text \<open>
  The second loop, over the elements under the centre of the selection;
  \<open>textElements\<close> is the array built so far.
\<close>

fun fallbackTexts :: "edges \<Rightarrow> element list \<Rightarrow> string list \<Rightarrow> string list" where
  "fallbackTexts selectionRect [] textElements = textElements"
| "fallbackTexts selectionRect (el # els) textElements =
     (let rect = el_rect el
      in if overlaps \<lparr> e_left = rect_left rect, e_top = rect_top rect,
                       e_right = rect_right rect, e_bottom = rect_bottom rect \<rparr> selectionRect
         then
           let text = (if el_innerText el \<noteq> [] then el_innerText el else el_textContent el)
           in if text \<noteq> [] \<and> trim text \<noteq> [] then
                (if trim text \<notin> set textElements
                 then fallbackTexts selectionRect els (textElements @ [trim text])
                 else fallbackTexts selectionRect els textElements)
              else fallbackTexts selectionRect els textElements
         else fallbackTexts selectionRect els textElements)"

definition textElementsOf :: "node list \<Rightarrow> dom \<Rightarrow> selectionData \<Rightarrow> string list" where
  "textElementsOf body d selectionData =
     (let selectionRect = selectionRectOf selectionData
      in fallbackTexts selectionRect (elementsAtCentre d selectionData)
           (walkerTexts body selectionRect))"

text \<open>The normalisation of the joined text, statement by statement.\<close>

definition normalizeSelectable :: "string \<Rightarrow> string" where
  "normalizeSelectable combinedText =
     (let t1 = replaceNewlineRuns 3 [LF, LF] combinedText;
          t2 = replaceTabs t1;
          t3 = replaceCRLF t2;
          t4 = replaceCR t3
      in trim t4)"

text \<open>
  \<^verbatim>\<open>document.createTreeWalker(document.body, ...)\<close> throws a \<^verbatim>\<open>TypeError\<close> when the
  document has no body; nothing in the function catches it.
\<close>

definition extractSelectableText :: "dom \<Rightarrow> selectionData \<Rightarrow> string + string" where
  "extractSelectableText d selectionData =
     (case dom_body d of
        None \<Rightarrow> Inl ''Failed to execute createTreeWalker on Document: parameter 1 is not of type Node.''
      | Some body \<Rightarrow>
          Inr (normalizeSelectable (join [LF] (textElementsOf body d selectionData))))"

subsection \<open>OCR processor: image sources and \<^verbatim>\<open>preprocessImage\<close>\<close>

text \<open>
  A canvas with its pixel buffer (RGBA, row by row), an \<^verbatim>\<open>ImageData\<close> object, and
  the values that reach a parameter documented as an image source, by their run-time
  kind: \<^verbatim>\<open>null\<close> or \<^verbatim>\<open>undefined\<close>, a string, an \<^verbatim>\<open>HTMLImageElement\<close>, an
  \<^verbatim>\<open>HTMLCanvasElement\<close>, an \<^verbatim>\<open>ImageData\<close>, or anything else (with its
  \<^verbatim>\<open>typeof\<close>).
\<close>

record canvas =
  cv_width :: nat
  cv_height :: nat
  cv_pixels :: "byte list"

record imageDataBuffer =
  idb_width :: nat
  idb_height :: nat
  idb_data :: "byte list"

datatype imageSource =
  NullSource
| UrlSource string
| ImageElementSource img
| CanvasSource canvas
| ImageDataSource imageDataBuffer
| OtherSource string

text \<open>\<^verbatim>\<open>!imageSource\<close>: \<^verbatim>\<open>null\<close>, \<^verbatim>\<open>undefined\<close> and the empty string are falsy.\<close>

definition isFalsy :: "imageSource \<Rightarrow> bool" where
  "isFalsy src = (src = NullSource \<or> src = UrlSource [])"

record preprocessOptions =
  po_maxWidth :: real
  po_maxHeight :: real
  po_grayscale :: bool
  po_enhanceContrast :: bool

definition defaultPreprocessOptions :: preprocessOptions where
  "defaultPreprocessOptions =
     \<lparr> po_maxWidth = 2000, po_maxHeight = 2000, po_grayscale = True, po_enhanceContrast = True \<rparr>"

datatype urlLoad = UrlLoaded img | UrlError | UrlTimeout

text \<open>
  The result of \<^verbatim>\<open>Tesseract.recognize\<close>: the promise resolves or rejects some
  milliseconds after the call, or stays pending. A resolved value either lacks
  \<^verbatim>\<open>data\<close> or carries \<^verbatim>\<open>data.text\<close> and \<^verbatim>\<open>data.confidence\<close> (a missing field reads as
  the empty string, respectively 0, under \<^verbatim>\<open>||\<close>).
\<close>

record recognitionData =
  rd_text :: string
  rd_confidence :: real

datatype recognition = NoData | Data recognitionData

datatype engineOutcome = Resolves nat recognition | Rejects nat string | Pending

datatype cdnLoad = CdnFails | CdnLoads bool

text \<open>
  What the browser and the engine answer to the OCR processor:
  the stored \<^verbatim>\<open>ocrLanguage\<close> (\<open>None\<close> when there is no storage, no entry, or the read
  fails), whether the global \<^verbatim>\<open>Tesseract\<close> is defined, how loading it from the CDN
  ends (and whether the global is defined afterwards), how loading an image URL ends
  within the 10 second limit, the pixel buffer read back after drawing a source at a
  given size (or the message of the exception \<^verbatim>\<open>drawImage\<close> or \<^verbatim>\<open>getImageData\<close>
  throws), the engine's outcome, and the milliseconds between \<^verbatim>\<open>startTime\<close> and the
  call of the engine.
\<close>

record ocrEnv =
  oe_storedLanguage :: "string option"
  oe_tesseractDefined :: bool
  oe_cdnLoad :: cdnLoad
  oe_loadUrl :: "string \<Rightarrow> urlLoad"
  oe_drawnPixels :: "imageSource \<Rightarrow> nat \<Rightarrow> nat \<Rightarrow> string + byte list"
  oe_recognize :: "imageSource \<Rightarrow> string \<Rightarrow> engineOutcome"
  oe_elapsedBeforeRecognize :: nat

text \<open>
  \<^verbatim>\<open>sourceWidth\<close> and \<^verbatim>\<open>sourceHeight\<close>; \<open>None\<close> is
  \<^verbatim>\<open>throw new Error('Unsupported image source type')\<close>.
\<close>

definition sourceDims :: "imageSource \<Rightarrow> (nat \<times> nat) option" where
  "sourceDims src =
     (case src of
        ImageElementSource im \<Rightarrow>
          Some (if img_naturalWidth im \<noteq> 0 then img_naturalWidth im else img_width im,
                if img_naturalHeight im \<noteq> 0 then img_naturalHeight im else img_height im)
      | CanvasSource c \<Rightarrow> Some (cv_width c, cv_height c)
      | ImageDataSource d \<Rightarrow> Some (idb_width d, idb_height d)
      | _ \<Rightarrow> None)"

text \<open>
  \<^verbatim>\<open>Math.min(1, maxWidth / sourceWidth, maxHeight / sourceHeight)\<close> for positive
  limits: a quotient by a zero dimension is \<^verbatim>\<open>Infinity\<close> and does not bound the
  minimum.
\<close>

definition scaleFor :: "real \<Rightarrow> real \<Rightarrow> nat \<Rightarrow> nat \<Rightarrow> real" where
  "scaleFor maxWidth maxHeight sourceWidth sourceHeight =
     min 1 (min (if sourceWidth = 0 then 1 else maxWidth / real sourceWidth)
                (if sourceHeight = 0 then 1 else maxHeight / real sourceHeight))"

definition preprocessImage :: "ocrEnv \<Rightarrow> imageSource \<Rightarrow> preprocessOptions \<Rightarrow> string + canvas" where
  "preprocessImage env imageSource options =
     (case sourceDims imageSource of
        None \<Rightarrow> Inl ''Unsupported image source type''
      | Some (sourceWidth, sourceHeight) \<Rightarrow>
          let scale = scaleFor (po_maxWidth options) (po_maxHeight options) sourceWidth sourceHeight;
              w = nat \<lfloor>Math_round (real sourceWidth * scale)\<rfloor>;
              h = nat \<lfloor>Math_round (real sourceHeight * scale)\<rfloor>
          in (case oe_drawnPixels env imageSource w h of
                Inl m \<Rightarrow> Inl m
              | Inr data \<Rightarrow>
                  Inr \<lparr> cv_width = w, cv_height = h,
                        cv_pixels = fst (preprocessPixels (po_grayscale options)
                                           (po_enhanceContrast options) data) \<rparr>))"

subsection \<open>OCR processor: state, \<^verbatim>\<open>initialize\<close> and \<^verbatim>\<open>isReady\<close>\<close>

text \<open>
  The fields of the singleton that the synchronous flow reads and writes;
  \<open>tesseract\<close> tells whether \<^verbatim>\<open>this.tesseract\<close> is not \<^verbatim>\<open>null\<close>. The worker cache is
  touched only by the pre-warm timer, which runs after \<^verbatim>\<open>initialize\<close> has returned and
  never feeds \<^verbatim>\<open>extractText\<close>.
\<close>

record ocrProcessor =
  isInitialized :: bool
  tesseract :: bool
  currentLanguage :: string

definition newOCRProcessor :: ocrProcessor where
  "newOCRProcessor = \<lparr> isInitialized = False, tesseract = False, currentLanguage = ''eng+spa+fra'' \<rparr>"

definition loadLanguagePreference :: "ocrEnv \<Rightarrow> ocrProcessor \<Rightarrow> string \<times> ocrProcessor" where
  "loadLanguagePreference env this =
     (case oe_storedLanguage env of
        Some l \<Rightarrow> if l \<noteq> [] then (l, this\<lparr> currentLanguage := l \<rparr>) else (currentLanguage this, this)
      | None \<Rightarrow> (currentLanguage this, this))"

text \<open>
  \<^verbatim>\<open>initialize(lang = null)\<close>. Every failure inside is rethrown as
  \<^verbatim>\<open>'Failed to initialize OCR: ' + error.message\<close>; reading the undefined global
  \<^verbatim>\<open>Tesseract\<close> is a \<^verbatim>\<open>ReferenceError\<close>.
\<close>

definition initialize :: "ocrEnv \<Rightarrow> ocrProcessor \<Rightarrow> string option \<Rightarrow> (string + unit) \<times> ocrProcessor" where
  "initialize env this lang =
     (let (lang1, this1) =
            (case lang of
               Some l \<Rightarrow>
                 if l \<noteq> [] then (l, this)
                 else (let (l', this') = loadLanguagePreference env this
                       in (if l' = [] then ''eng+spa+fra'' else l', this'))
             | None \<Rightarrow>
                 (let (l', this') = loadLanguagePreference env this
                  in (if l' = [] then ''eng+spa+fra'' else l', this')));
          ready = this1\<lparr> tesseract := True, currentLanguage := lang1, isInitialized := True \<rparr>
      in if oe_tesseractDefined env then (Inr (), ready)
         else (case oe_cdnLoad env of
                 CdnFails \<Rightarrow>
                   (Inl ''Failed to initialize OCR: Failed to load Tesseract.js from CDN'', this1)
               | CdnLoads defined \<Rightarrow>
                   if defined then (Inr (), ready)
                   else (Inl ''Failed to initialize OCR: Tesseract is not defined'', this1)))"

definition isReady :: "ocrProcessor \<Rightarrow> bool" where
  "isReady this = (isInitialized this \<and> tesseract this)"

subsection \<open>OCR processor: \<^verbatim>\<open>extractText\<close>\<close>

record ocrResult =
  or_text :: string
  or_confidence :: real
  or_processingTime :: nat
  or_warning :: "string option"

record extractOptions =
  eo_lang :: string
  eo_preprocess :: bool
  eo_preprocessOptions :: preprocessOptions

text \<open>\<^verbatim>\<open>extractText(image)\<close> with \<^verbatim>\<open>options = {}\<close>.\<close>

definition noOptions :: extractOptions where
  "noOptions = \<lparr> eo_lang = [], eo_preprocess = True, eo_preprocessOptions = defaultPreprocessOptions \<rparr>"

text \<open>
  The inner \<^verbatim>\<open>try\<close> block: the processed image, or the message of the error caught
  as \<^verbatim>\<open>preprocessError\<close>. The \<^verbatim>\<open>error\<close> event of an image has no message, hence
  \<^verbatim>\<open>'Unknown error'\<close>.
\<close>

definition validImage :: "img \<Rightarrow> bool" where
  "validImage im = (img_complete im \<and> img_naturalWidth im \<noteq> 0 \<and> img_naturalHeight im \<noteq> 0)"

definition asCanvasSource :: "string + canvas \<Rightarrow> string + imageSource" where
  "asCanvasSource r = (case r of Inl m \<Rightarrow> Inl m | Inr c \<Rightarrow> Inr (CanvasSource c))"

definition prepareImage :: "ocrEnv \<Rightarrow> imageSource \<Rightarrow> preprocessOptions \<Rightarrow> string + imageSource" where
  "prepareImage env imageSource preprocessOptions =
     (case imageSource of
        UrlSource url \<Rightarrow>
          (case oe_loadUrl env url of
             UrlTimeout \<Rightarrow> Inl ''Image loading timeout''
           | UrlError \<Rightarrow> Inl ''Failed to load image: Unknown error''
           | UrlLoaded im \<Rightarrow>
               if \<not> validImage im
               then Inl ''Invalid image: image failed to load or has zero dimensions''
               else asCanvasSource (preprocessImage env (ImageElementSource im) preprocessOptions))
      | ImageElementSource im \<Rightarrow>
          if \<not> validImage im
          then Inl ''Invalid image element: image not loaded or has zero dimensions''
          else asCanvasSource (preprocessImage env imageSource preprocessOptions)
      | CanvasSource c \<Rightarrow>
          if cv_width c = 0 \<or> cv_height c = 0
          then Inl ''Invalid canvas: canvas has zero dimensions''
          else asCanvasSource (preprocessImage env imageSource preprocessOptions)
      | ImageDataSource d \<Rightarrow>
          if idb_width d = 0 \<or> idb_height d = 0
          then Inl ''Invalid ImageData: ImageData has zero dimensions''
          else asCanvasSource (preprocessImage env imageSource preprocessOptions)
      | OtherSource ty \<Rightarrow> Inl (''Unsupported image source type: '' @ ty)
      | NullSource \<Rightarrow> Inl ''Unsupported image source type: object'')"

text \<open>
  \<^verbatim>\<open>Promise.race([ocrPromise, timeoutPromise])\<close>. The timer is set after the engine has
  been called and rejects 30000 ms later; the race is won by the engine when it
  settles within 30000 ms of its call, and by the timer otherwise.
\<close>

definition ocrTimeout :: nat where
  "ocrTimeout = 30000"

definition settlesInTime :: "engineOutcome \<Rightarrow> bool" where
  "settlesInTime outcome =
     (case outcome of
        Resolves t r \<Rightarrow> t \<le> ocrTimeout
      | Rejects t m \<Rightarrow> t \<le> ocrTimeout
      | Pending \<Rightarrow> False)"

definition race :: "engineOutcome \<Rightarrow> string + nat \<times> recognition" where
  "race outcome =
     (if settlesInTime outcome then
        (case outcome of
           Resolves t r \<Rightarrow> Inr (t, r)
         | Rejects t m \<Rightarrow> Inl m
         | Pending \<Rightarrow> Inl ''OCR processing timeout: exceeded 30000ms'')
      else Inl ''OCR processing timeout: exceeded 30000ms'')"

text \<open>The body of the outer \<^verbatim>\<open>try\<close>: the result, or the message of the error thrown.\<close>

definition processImage :: "ocrEnv \<Rightarrow> imageSource \<Rightarrow> extractOptions \<Rightarrow> string + imageSource" where
  "processImage env imageSource options =
     (if eo_preprocess options then
        (case prepareImage env imageSource (eo_preprocessOptions options) of
           Inl m \<Rightarrow> Inl (''Image preprocessing failed: '' @ m)
         | Inr processed \<Rightarrow> Inr processed)
      else Inr imageSource)"

definition readResult :: "nat \<Rightarrow> recognition \<Rightarrow> string + ocrResult" where
  "readResult processingTime result =
     (case result of
        NoData \<Rightarrow> Inl ''Invalid OCR result: result data is missing''
      | Data d \<Rightarrow>
          let extractedText = rd_text d
          in if trim extractedText = [] then
               Inr \<lparr> or_text = [], or_confidence = 0,
                     or_processingTime = processingTime,
                     or_warning = Some ''No text found in image'' \<rparr>
             else
               Inr \<lparr> or_text = extractedText,
                     or_confidence = rd_confidence d,
                     or_processingTime = processingTime,
                     or_warning = None \<rparr>)"

definition extractTextBody ::
  "ocrEnv \<Rightarrow> string \<Rightarrow> imageSource \<Rightarrow> extractOptions \<Rightarrow> string + ocrResult" where
  "extractTextBody env lang imageSource options =
     (if isFalsy imageSource then Inl ''Invalid image source: image source is null or undefined''
      else
        (case processImage env imageSource options of
           Inl m \<Rightarrow> Inl m
         | Inr processedImage \<Rightarrow>
             if isFalsy processedImage then Inl ''Processed image is null or undefined''
             else if lang = [] then Inl (''Invalid language code: '' @ lang)
             else
               (case race (oe_recognize env processedImage lang) of
                  Inl m \<Rightarrow> Inl m
                | Inr (t, result) \<Rightarrow> readResult (oe_elapsedBeforeRecognize env + t) result)))"

text \<open>The \<^verbatim>\<open>catch\<close> block: the message of the error that \<^verbatim>\<open>extractText\<close> throws.\<close>

definition describeError :: "string \<Rightarrow> string" where
  "describeError message =
     (let errorMessage = (if message \<noteq> [] then message else ''OCR processing failed'')
      in if str_includes errorMessage ''timeout'' then
           ''OCR processing timed out. The image may be too large or complex.''
         else if str_includes errorMessage ''load'' then
           ''Failed to load image. The image may be corrupted or inaccessible.''
         else if str_includes errorMessage ''language'' then
           ''Invalid language code. Please select a valid language.''
         else if str_includes errorMessage ''dimensions'' \<or> str_includes errorMessage ''zero'' then
           ''Invalid image: image has zero dimensions or failed to load.''
         else errorMessage)"

text \<open>
  \<^verbatim>\<open>extractText(imageSource, options)\<close>: the result or the message of the error
  thrown, and the processor afterwards. A failure of \<^verbatim>\<open>initialize\<close> happens before
  the \<^verbatim>\<open>try\<close> and is thrown as it is.
\<close>

definition ensureInitialized ::
  "ocrEnv \<Rightarrow> ocrProcessor \<Rightarrow> extractOptions \<Rightarrow> (string + unit) \<times> ocrProcessor" where
  "ensureInitialized env this options =
     (if \<not> isInitialized this then
        initialize env this
          (Some (if eo_lang options \<noteq> [] then eo_lang options else currentLanguage this))
      else (Inr (), this))"

definition languageOf :: "extractOptions \<Rightarrow> ocrProcessor \<Rightarrow> string" where
  "languageOf options this =
     (if eo_lang options \<noteq> [] then eo_lang options else currentLanguage this)"

definition extractText ::
  "ocrEnv \<Rightarrow> ocrProcessor \<Rightarrow> imageSource \<Rightarrow> extractOptions \<Rightarrow> (string + ocrResult) \<times> ocrProcessor" where
  "extractText env this imageSource options =
     (let (started, this1) = ensureInitialized env this options
      in (case started of
            Inl m \<Rightarrow> (Inl m, this1)
          | Inr u \<Rightarrow>
              (case extractTextBody env (languageOf options this1) imageSource options of
                 Inl m \<Rightarrow> (Inl (describeError m), this1)
               | Inr r \<Rightarrow> (Inr r, this1))))"

subsection \<open>Text extractor: acquiring images for OCR\<close>

datatype scriptLoad = ScriptFails | ScriptLoads "ocrProcessor option"

text \<open>
  What the page and the browser answer during one extraction: the page snapshot, the
  answers to the OCR processor, how injecting \<^verbatim>\<open>lib/ocr-processor.js\<close> ends (and the
  value of \<^verbatim>\<open>window.OCRProcessor\<close> afterwards), whether a fresh \<^verbatim>\<open>Image\<close> with a given
  \<^verbatim>\<open>src\<close> fires \<^verbatim>\<open>load\<close> (\<open>Some\<close>) or \<^verbatim>\<open>error\<close> (\<open>None\<close>), and \<^verbatim>\<open>html2canvas\<close>:
  undefined (\<open>None\<close>), or rejecting with a message, or resolving with a canvas. Each
  of these answers is taken to arrive.
\<close>

record world =
  w_dom :: dom
  w_ocr :: ocrEnv
  w_scriptLoad :: scriptLoad
  w_loadImage :: "string \<Rightarrow> img option"
  w_html2canvas :: "(string + canvas) option"

definition getImageData :: "world \<Rightarrow> imageInfo \<Rightarrow> string + imageSource" where
  "getImageData w imageInfo =
     (case w_loadImage w (ii_src imageInfo) of
        Some im \<Rightarrow> Inr (ImageElementSource im)
      | None \<Rightarrow>
          (case ii_element imageInfo of
             ImgElement im \<Rightarrow> Inr (ImageElementSource im)
           | PageElement el \<Rightarrow>
               (case el_img el of
                  Some im \<Rightarrow> Inr (ImageElementSource im)
                | None \<Rightarrow> Inl (''Failed to load image: '' @ ii_src imageInfo))))"

text \<open>
  \<^verbatim>\<open>captureSelectionAsImage\<close>: a white canvas of the size of the selection (a canvas
  dimension is an integer; the fraction of a non-negative number is dropped).
\<close>

definition captureSelectionAsImage :: "selectionData \<Rightarrow> string + canvas" where
  "captureSelectionAsImage selectionData =
     (let w = nat \<lfloor>viewportWidth selectionData\<rfloor>;
          h = nat \<lfloor>viewportHeight selectionData\<rfloor>
      in Inr \<lparr> cv_width = w, cv_height = h, cv_pixels = replicate (4 * w * h) 255 \<rparr>)"

definition captureAreaWithCanvas :: "world \<Rightarrow> selectionData \<Rightarrow> string + canvas" where
  "captureAreaWithCanvas w selectionData =
     (case w_html2canvas w of
        Some (Inr c) \<Rightarrow> Inr c
      | Some (Inl m) \<Rightarrow> captureSelectionAsImage selectionData
      | None \<Rightarrow> captureSelectionAsImage selectionData)"

datatype imageDataInfo = DetectedInfo imageInfo | SelectionAreaInfo nat nat

record imageData =
  id_image :: imageSource
  id_info :: imageDataInfo

definition detectedEntry :: "world \<Rightarrow> imageInfo \<Rightarrow> imageData option" where
  "detectedEntry w imageInfo =
     (case getImageData w imageInfo of
        Inl m \<Rightarrow> None
      | Inr loaded \<Rightarrow> Some \<lparr> id_image = loaded, id_info = DetectedInfo imageInfo \<rparr>)"

definition extractImagesForOCR :: "world \<Rightarrow> selectionData \<Rightarrow> imageData list" where
  "extractImagesForOCR w selectionData =
     (let detectedImages = detectImagesInSelection (w_dom w) selectionData
      in List.map_filter (detectedEntry w) detectedImages
         @ (case captureAreaWithCanvas w selectionData of
              Inl m \<Rightarrow> []
            | Inr selectionCanvas \<Rightarrow>
                [\<lparr> id_image = CanvasSource selectionCanvas,
                   id_info = SelectionAreaInfo (cv_width selectionCanvas) (cv_height selectionCanvas) \<rparr>]))"

subsection \<open>Text extractor: \<^verbatim>\<open>extractTextFromSelection\<close>\<close>

record imageEntry =
  ie_src :: string
  ie_text :: string
  ie_confidence :: "real option"
  ie_processingTime :: "nat option"
  ie_warning :: "string option"
  ie_error :: "string option"

record errorObject =
  er_imageIndex :: "nat option"
  er_src :: "string option"
  er_error :: string
  er_type :: string

datatype errorEntry = ErrorObject errorObject | ErrorString string

record results =
  selectableText :: string
  ocrText :: string
  combinedText :: string
  images :: "imageEntry list"
  errors :: "errorEntry list"

definition emptyResults :: results where
  "emptyResults =
     \<lparr> selectableText = [], ocrText = [], combinedText = [], images = [], errors = [] \<rparr>"

text \<open>The calls made on the OCR side during an extraction, in order.\<close>

datatype adapterCall = LoadOCRScript | Initialize | ExtractText imageSource

text \<open>\<^verbatim>\<open>imageData.info.src || 'selection-area'\<close>.\<close>

definition srcOf :: "imageData \<Rightarrow> string" where
  "srcOf imageData =
     (case id_info imageData of
        DetectedInfo imageInfo \<Rightarrow>
          if ii_src imageInfo \<noteq> [] then ii_src imageInfo else ''selection-area''
      | SelectionAreaInfo w h \<Rightarrow> ''selection-area'')"

text \<open>
  The \<^verbatim>\<open>try\<close> part of one loop iteration up to the awaited result: the OCR result or
  the message of the error thrown, the processor afterwards, and the calls made.
\<close>

definition recognizeOne ::
  "ocrEnv \<Rightarrow> ocrProcessor \<Rightarrow> imageData \<Rightarrow> (string + ocrResult) \<times> ocrProcessor \<times> adapterCall list" where
  "recognizeOne env this imageData =
     (if isFalsy (id_image imageData) then (Inl ''Image data is missing'', this, [])
      else (let (r, this1) = extractText env this (id_image imageData) noOptions
            in (r, this1, [ExtractText (id_image imageData)])))"

text \<open>
  What one iteration with index \<open>i\<close> pushes to \<^verbatim>\<open>ocrResults\<close>, \<^verbatim>\<open>results.images\<close> and
  \<^verbatim>\<open>results.errors\<close>, given the awaited result.
\<close>

definition record_outcome ::
  "nat \<Rightarrow> imageData \<Rightarrow> string + ocrResult \<Rightarrow> string list \<times> imageEntry list \<times> errorEntry list" where
  "record_outcome i imageData r =
     (case r of
        Inr ocrResult \<Rightarrow>
          if or_text ocrResult \<noteq> [] \<and> trim (or_text ocrResult) \<noteq> [] then
            ([or_text ocrResult],
             [\<lparr> ie_src = srcOf imageData, ie_text = or_text ocrResult,
                ie_confidence = Some (or_confidence ocrResult),
                ie_processingTime = Some (or_processingTime ocrResult),
                ie_warning = None, ie_error = None \<rparr>],
             [])
          else
            ([],
             [\<lparr> ie_src = srcOf imageData, ie_text = [],
                ie_confidence = Some 0, ie_processingTime = None,
                ie_warning = Some ''No text detected in image'', ie_error = None \<rparr>],
             [])
      | Inl message \<Rightarrow>
          let errorMessage = (if message \<noteq> [] then message else ''Unknown error'')
          in ([],
              [\<lparr> ie_src = srcOf imageData, ie_text = [],
                 ie_confidence = None, ie_processingTime = None,
                 ie_warning = None, ie_error = Some errorMessage \<rparr>],
              [ErrorObject \<lparr> er_imageIndex = Some (i + 1), er_src = Some (srcOf imageData),
                             er_error = errorMessage, er_type = ''ocr_failure'' \<rparr>]))"

text \<open>
  \<^verbatim>\<open>for (let i = 0; i < imageDataArray.length; i++)\<close>, from index \<open>i\<close> on: everything
  pushed to the three arrays, the processor afterwards, and the calls made.
\<close>

fun processImages ::
  "ocrEnv \<Rightarrow> ocrProcessor \<Rightarrow> nat \<Rightarrow> imageData list
   \<Rightarrow> (string list \<times> imageEntry list \<times> errorEntry list) \<times> ocrProcessor \<times> adapterCall list" where
  "processImages env this i [] = (([], [], []), this, [])"
| "processImages env this i (imageData # rest) =
     (let (r, this1, calls1) = recognizeOne env this imageData;
          (texts1, images1, errors1) = record_outcome i imageData r;
          ((texts2, images2, errors2), this2, calls2) = processImages env this1 (Suc i) rest
      in ((texts1 @ texts2, images1 @ images2, errors1 @ errors2), this2, calls1 @ calls2))"

text \<open>
  The block guarded by \<^verbatim>\<open>if (window.OCRProcessor)\<close> and its \<^verbatim>\<open>else\<close>: the results
  afterwards, \<^verbatim>\<open>window.OCRProcessor\<close> afterwards, and the calls made.
  \<^verbatim>\<open>extractImagesForOCR\<close> catches every failure itself, so the \<^verbatim>\<open>catch\<close> around its
  call is never entered.
\<close>

definition ocrStage ::
  "world \<Rightarrow> ocrProcessor option \<Rightarrow> selectionData \<Rightarrow> results
   \<Rightarrow> results \<times> ocrProcessor option \<times> adapterCall list" where
  "ocrStage w window selectionData res =
     (case window of
        None \<Rightarrow>
          (res\<lparr> errors := errors res @
              [ErrorObject \<lparr> er_imageIndex = None, er_src = None,
                 er_error = ''OCR processor not available. Tesseract.js may not be loaded.'',
                 er_type = ''processor_unavailable'' \<rparr>] \<rparr>,
           None, [])
      | Some this \<Rightarrow>
          let (started, this1) = initialize (w_ocr w) this None;
              res1 = (case started of
                        Inl message \<Rightarrow>
                          res\<lparr> errors := errors res @
                            [ErrorObject \<lparr> er_imageIndex = None, er_src = None,
                               er_error = ''Failed to initialize OCR processor: ''
                                  @ (if message \<noteq> [] then message else ''Unknown error''),
                               er_type = ''initialization_failure'' \<rparr>] \<rparr>
                      | Inr u \<Rightarrow> res)
          in if isReady this1 then
               let imageDataArray = extractImagesForOCR w selectionData;
                   ((ocrResults, newImages, newErrors), this2, calls) =
                      processImages (w_ocr w) this1 0 imageDataArray;
                   res2 = res1\<lparr> images := images res1 @ newImages,
                                errors := errors res1 @ newErrors \<rparr>;
                   res3 = (if ocrResults \<noteq> []
                           then res2\<lparr> ocrText := join [LF, LF] ocrResults \<rparr> else res2)
               in (res3, Some this2, Initialize # calls)
             else
               (res1\<lparr> errors := errors res1 @
                   [ErrorObject \<lparr> er_imageIndex = None, er_src = None,
                      er_error = ''OCR processor not ready'',
                      er_type = ''processor_not_ready'' \<rparr>] \<rparr>,
                Some this1, [Initialize]))"

text \<open>
  Step 3: combining the selectable text and the OCR text. \<open>textParts\<close> is the array
  of that name: the trimmed selectable text and the trimmed OCR text, each only when
  it is not blank.
\<close>

definition textParts :: "results \<Rightarrow> string list" where
  "textParts res =
     (if selectableText res \<noteq> [] \<and> trim (selectableText res) \<noteq> []
      then [trim (selectableText res)] else [])
     @ (if ocrText res \<noteq> [] \<and> trim (ocrText res) \<noteq> []
        then [trim (ocrText res)] else [])"

definition combine :: "results \<Rightarrow> results" where
  "combine res =
     res\<lparr> combinedText :=
           trim (replaceNewlineRuns 4 [LF, LF, LF] (join [LF, LF] (textParts res))) \<rparr>"

text \<open>
  The \<^verbatim>\<open>try\<close> block of \<^verbatim>\<open>extractTextFromSelection\<close>: \<open>Inr\<close> is the value returned from
  inside the block; \<open>Inl\<close> is an error thrown in it, with the state of \<^verbatim>\<open>results\<close> at
  that moment. \<^verbatim>\<open>loadOCRScript\<close> rejects with \<^verbatim>\<open>'Failed to load OCR processor'\<close>.
\<close>

definition tryExtract ::
  "world \<Rightarrow> ocrProcessor option \<Rightarrow> selectionData
   \<Rightarrow> (string \<times> results + results) \<times> ocrProcessor option \<times> adapterCall list" where
  "tryExtract w window selectionData =
     (case extractSelectableText (w_dom w) selectionData of
        Inl message \<Rightarrow> (Inl (message, emptyResults), window, [])
      | Inr text \<Rightarrow>
          let res = emptyResults\<lparr> selectableText := text \<rparr>;
              detectedImages = detectImagesInSelection (w_dom w) selectionData
          in if length detectedImages > 0 then
               (if window = None then
                  (case w_scriptLoad w of
                     ScriptFails \<Rightarrow>
                       (Inl (''Failed to load OCR processor'', res), window, [LoadOCRScript])
                   | ScriptLoads window1 \<Rightarrow>
                       let (res1, window2, calls) = ocrStage w window1 selectionData res
                       in (Inr (combine res1), window2, LoadOCRScript # calls))
                else
                  (let (res1, window2, calls) = ocrStage w window selectionData res
                   in (Inr (combine res1), window2, calls)))
             else (Inr (combine res), window, []))"

text \<open>
  \<^verbatim>\<open>extractTextFromSelection\<close>: \<open>Inr\<close> is the value the promise resolves with, \<open>Inl\<close>
  would be a rejection. The \<^verbatim>\<open>catch\<close> block appends a string to \<^verbatim>\<open>results.errors\<close>
  and returns \<^verbatim>\<open>results\<close>.
\<close>

definition extractTextFromSelection ::
  "world \<Rightarrow> ocrProcessor option \<Rightarrow> selectionData
   \<Rightarrow> (string + results) \<times> ocrProcessor option \<times> adapterCall list" where
  "extractTextFromSelection w window selectionData =
     (case tryExtract w window selectionData of
        (Inr res, window1, calls) \<Rightarrow> (Inr res, window1, calls)
      | (Inl (message, res), window1, calls) \<Rightarrow>
          (Inr (res\<lparr> errors := errors res @ [ErrorString (''Extraction failed: '' @ message)] \<rparr>),
           window1, calls))"

subsection \<open>Selection overlay\<close>

text \<open>
  The module variables of \<^verbatim>\<open>content/selection-overlay.js\<close>. Of the two DOM elements
  only their presence matters here; \<open>selectionBox\<close> is \<open>Some\<close> while the variable
  holds the box element.
\<close>

record boxStyle =
  bs_left :: real
  bs_top :: real
  bs_width :: real
  bs_height :: real
  bs_display :: bool

record overlay =
  isSelectionModeActive :: bool
  isSelecting :: bool
  startX :: real
  startY :: real
  selectionOverlay :: bool
  selectionBox :: "boxStyle option"
  loadingIndicator :: bool

datatype message =
  TextExtractionComplete results selectionData
| SelectionComplete selectionData
| ExtractionError string selectionData
| CancelSelection

text \<open>
  What an event handler does beyond changing the module variables: a call of
  \<^verbatim>\<open>window.TextExtractor.extractTextFromSelection\<close> and a message sent to the service
  worker.
\<close>

datatype effect = Extract selectionData | Send message

definition removeSelectionOverlay :: "overlay \<Rightarrow> overlay" where
  "removeSelectionOverlay st = st\<lparr> selectionOverlay := False, selectionBox := None \<rparr>"

definition hideLoadingIndicator :: "overlay \<Rightarrow> overlay" where
  "hideLoadingIndicator st = st\<lparr> loadingIndicator := False \<rparr>"

definition showLoadingIndicator :: "overlay \<Rightarrow> overlay" where
  "showLoadingIndicator st = (hideLoadingIndicator st)\<lparr> loadingIndicator := True \<rparr>"

text \<open>
  \<^verbatim>\<open>handleSelectionComplete\<close>, run to its end. \<open>extractor\<close> is
  \<^verbatim>\<open>window.TextExtractor.extractTextFromSelection\<close> when it is a function, with \<open>Inl\<close>
  for a rejection.
\<close>

definition handleSelectionComplete ::
  "(selectionData \<Rightarrow> string + results) option \<Rightarrow> overlay \<Rightarrow> selectionData
   \<Rightarrow> overlay \<times> effect list" where
  "handleSelectionComplete extractor st selectionData =
     (let st1 = showLoadingIndicator st;
          effects =
            (case extractor of
               Some extract \<Rightarrow>
                 (case extract selectionData of
                    Inr extractedData \<Rightarrow>
                      [Extract selectionData,
                       Send (TextExtractionComplete extractedData selectionData)]
                  | Inl message \<Rightarrow>
                      [Extract selectionData, Send (ExtractionError message selectionData)])
             | None \<Rightarrow> [Send (SelectionComplete selectionData)])
      in (removeSelectionOverlay (hideLoadingIndicator st1), effects))"

text \<open>
  \<^verbatim>\<open>handleMouseUp\<close>. \<open>rect\<close> is what \<^verbatim>\<open>selectionBox.getBoundingClientRect()\<close> returns,
  \<open>scrollX\<close> and \<open>scrollY\<close> are the window's scroll offsets.
\<close>

definition handleMouseUp ::
  "(selectionData \<Rightarrow> string + results) option \<Rightarrow> domRect \<Rightarrow> real \<Rightarrow> real \<Rightarrow> overlay
   \<Rightarrow> overlay \<times> effect list" where
  "handleMouseUp extractor rect scrollX scrollY st =
     (if \<not> isSelectionModeActive st \<or> \<not> isSelecting st then (st, [])
      else
        let st1 = st\<lparr> isSelecting := False \<rparr>
        in (case selectionBox st1 of
              None \<Rightarrow> (st1, [])
            | Some box \<Rightarrow>
                let selectionData =
                      \<lparr> sel_x = rect_left rect + scrollX,
                        sel_y = rect_top rect + scrollY,
                        sel_width = rect_width rect,
                        sel_height = rect_height rect,
                        viewportX = rect_left rect,
                        viewportY = rect_top rect,
                        viewportWidth = rect_width rect,
                        viewportHeight = rect_height rect \<rparr>
                in if sel_width selectionData > 5 \<and> sel_height selectionData > 5
                   then handleSelectionComplete extractor st1 selectionData
                   else (removeSelectionOverlay st1, [])))"

subsection \<open>Example inputs\<close>

text \<open>A page whose body holds one paragraph with the text \<open>Hello world\<close> and no image.\<close>

definition helloPage :: dom where
  "helloPage =
     \<lparr> dom_body = Some
         [ElementNode \<lparr> rect_left = 10, rect_top = 10, rect_width = 80, rect_height = 20 \<rparr>
            [TextNode ''Hello world''
               \<lparr> rect_left = 10, rect_top = 10, rect_width = 60, rect_height = 20 \<rparr>]],
       dom_imgs = [],
       dom_elementsFromPoint = (\<lambda>x y. []) \<rparr>"

text \<open>A loaded 1 by 1 image shown at 40 by 40, and a page that holds only this image.\<close>

definition logoImg :: img where
  "logoImg =
     \<lparr> img_src = ''logo.png'', img_currentSrc = ''logo.png'', img_alt = [],
       img_complete = True, img_naturalWidth = 1, img_naturalHeight = 1,
       img_width = 40, img_height = 40,
       img_rect = \<lparr> rect_left = 20, rect_top = 20, rect_width = 40, rect_height = 40 \<rparr> \<rparr>"

definition logoPage :: dom where
  "logoPage = \<lparr> dom_body = Some [], dom_imgs = [logoImg], dom_elementsFromPoint = (\<lambda>x y. []) \<rparr>"

text \<open>
  An OCR side on which \<^verbatim>\<open>Tesseract\<close> is defined, every source draws as one pixel, and
  the engine answers as given.
\<close>

definition engineEnv :: "engineOutcome \<Rightarrow> ocrEnv" where
  "engineEnv outcome =
     \<lparr> oe_storedLanguage = None,
       oe_tesseractDefined = True,
       oe_cdnLoad = CdnFails,
       oe_loadUrl = (\<lambda>url. UrlError),
       oe_drawnPixels = (\<lambda>src w h. Inr [200, 100, 50, 255]),
       oe_recognize = (\<lambda>src lang. outcome),
       oe_elapsedBeforeRecognize = 7 \<rparr>"

definition exampleWorld :: "dom \<Rightarrow> engineOutcome \<Rightarrow> world" where
  "exampleWorld page outcome =
     \<lparr> w_dom = page,
       w_ocr = engineEnv outcome,
       w_scriptLoad = ScriptFails,
       w_loadImage = (\<lambda>src. None),
       w_html2canvas = None \<rparr>"

definition rectangle :: "real \<Rightarrow> real \<Rightarrow> real \<Rightarrow> real \<Rightarrow> selectionData" where
  "rectangle l t w h =
     \<lparr> sel_x = l, sel_y = t, sel_width = w, sel_height = h,
       viewportX = l, viewportY = t, viewportWidth = w, viewportHeight = h \<rparr>"

definition readyProcessor :: ocrProcessor where
  "readyProcessor = \<lparr> isInitialized = True, tesseract = True, currentLanguage = ''eng+spa+fra'' \<rparr>"

definition onePixel :: canvas where
  "onePixel = \<lparr> cv_width = 1, cv_height = 1, cv_pixels = [200, 100, 50, 255] \<rparr>"

text \<open>The one pixel after grayscale conversion and contrast enhancement.\<close>

definition grayPixel :: canvas where
  "grayPixel = \<lparr> cv_width = 1, cv_height = 1, cv_pixels = [124, 124, 124, 255] \<rparr>"

text \<open>
  A page with three images at the same place, the second of which has not loaded; the
  candidate that \<^verbatim>\<open>detectImagesInSelection\<close> builds for such an image inside a 100
  by 100 selection; an OCR side that draws a canvas as it is and any other source as
  the one pixel, and reads \<open>ABC\<close> from the gray pixel and blank text from anything
  else; and the world in which \<^verbatim>\<open>html2canvas\<close> yields a white pixel.
\<close>

definition brokenImg :: img where
  "brokenImg = logoImg\<lparr> img_src := ''broken.png'', img_currentSrc := ''broken.png'',
                         img_complete := False \<rparr>"


definition imgInfo :: "nat \<Rightarrow> img \<Rightarrow> imageInfo" where
  "imgInfo index im =
     \<lparr> ii_element = ImgElement im, ii_src = img_src im, ii_alt = [], ii_type = None,
       ii_naturalWidth = Some 1, ii_naturalHeight = Some 1,
       ii_displayWidth = Some 40, ii_displayHeight = Some 40,
       ii_rect = \<lparr> rect_left = 20, rect_top = 20, rect_width = 40, rect_height = 40 \<rparr>,
       ii_intersection = \<lparr> ix = 20, iy = 20, iwidth = 40, iheight = 40 \<rparr>,
       ii_index = Some index \<rparr>"




text \<open>
  A world like \<open>exampleWorld\<close> in which \<^verbatim>\<open>html2canvas\<close> yields the one-pixel canvas.
\<close>

definition ocrWorld :: "dom \<Rightarrow> engineOutcome \<Rightarrow> world" where
  "ocrWorld page outcome = (exampleWorld page outcome)\<lparr> w_html2canvas := Some (Inr onePixel) \<rparr>"





text \<open>
  A recognised text with a run of five line feeds; the world in which the engine reads
  it from the image of \<open>logoPage\<close> and from the capture; and the result of the
  extraction there.
\<close>

definition runText :: string where
  "runText = [CHR ''x'', LF, LF, LF, LF, LF, CHR ''y'']"

definition runWorld :: world where
  "runWorld = ocrWorld logoPage (Resolves 1200 (Data \<lparr> rd_text = runText, rd_confidence = 80 \<rparr>))"

definition collapsedText :: string where
  "collapsedText = [CHR ''x'', LF, LF, LF, CHR ''y'', LF, LF, CHR ''x'', LF, LF, LF, CHR ''y'']"

definition runResult :: results where
  "runResult =
     \<lparr> selectableText = [],
       ocrText = runText @ [LF, LF] @ runText,
       combinedText = collapsedText,
       images =
         [\<lparr> ie_src = ''logo.png'', ie_text = runText, ie_confidence = Some 80,
            ie_processingTime = Some 1207, ie_warning = None, ie_error = None \<rparr>,
          \<lparr> ie_src = ''selection-area'', ie_text = runText, ie_confidence = Some 80,
            ie_processingTime = Some 1207, ie_warning = None, ie_error = None \<rparr>],
       errors = [] \<rparr>"

text \<open>
  The overlay in the middle of a drag, and an extractor: the aggregator on the page
  with the paragraph.
\<close>

definition draggingOverlay :: overlay where
  "draggingOverlay =
     \<lparr> isSelectionModeActive = True, isSelecting = True, startX = 10, startY = 10,
       selectionOverlay = True,
       selectionBox = Some \<lparr> bs_left = 10, bs_top = 10, bs_width = 5, bs_height = 5,
                             bs_display = True \<rparr>,
       loadingIndicator = False \<rparr>"

definition exampleExtractor :: "selectionData \<Rightarrow> string + results" where
  "exampleExtractor sd = fst (extractTextFromSelection (exampleWorld helloPage Pending) None sd)"

section \<open>Properties\<close>

subsection \<open>Pixel values stay in range\<close>

lemma readByte_range: "0 \<le> readByte w \<and> readByte w \<le> 255"
proof -
  have "unat w < 2 ^ 8"
    using unsigned_less [of w, where ?'a = nat] by simp
  then have "unat w \<le> 255" by simp
  then have "real (unat w) \<le> real 255"
    by (simp only: of_nat_le_iff)
  moreover have "0 \<le> real (unat w)"
    by (rule of_nat_0_le_iff)
  ultimately show ?thesis
    unfolding readByte_def by (simp del: of_nat_unat)
qed

lemma grayscaleStep_range:
  assumes "v \<in> set (snd (grayscaleStep p))"
  shows "0 \<le> v \<and> v \<le> 255"
proof -
  obtain r g b where p: "p = (r, g, b)"
    by (cases p) auto
  define s where "s = 0.299 * readByte r + 0.587 * readByte g + 0.114 * readByte b"
  have v: "v = of_int \<lfloor>s + 1/2\<rfloor>"
    using assms by (simp add: grayscaleStep_def p Math_round_def s_def Let_def)
  have lo: "0 \<le> s" and hi: "s \<le> 255"
    using readByte_range [of r] readByte_range [of g] readByte_range [of b]
    by (simp_all add: s_def)
  have "(0::int) \<le> \<lfloor>s + 1/2\<rfloor>"
    using lo by simp
  moreover have "\<lfloor>s + 1/2\<rfloor> \<le> (255::int)"
  proof -
    have "s + 1/2 < of_int (256::int)"
      using hi by simp
    then have "\<lfloor>s + 1/2\<rfloor> < (256::int)"
      by (simp only: floor_less_iff)
    then show ?thesis by simp
  qed
  ultimately show ?thesis
    by (simp add: v)
qed

lemma contrastStep_range:
  assumes "v \<in> set (snd (contrastStep p))"
  shows "0 \<le> v \<and> v \<le> 255"
proof -
  obtain d0 d1 d2 where p: "p = (d0, d1, d2)"
    by (cases p) auto
  show ?thesis
    using assms by (auto simp: contrastStep_def p Let_def)
qed

lemma processPixel_range:
  assumes "v \<in> set (snd (processPixel gs ec p))"
  shows "0 \<le> v \<and> v \<le> 255"
proof -
  obtain p1 w1 where s1: "(if gs then grayscaleStep p else (p, [])) = (p1, w1)"
    by (cases "if gs then grayscaleStep p else (p, [])") auto
  obtain p2 w2 where s2: "(if ec then contrastStep p1 else (p1, [])) = (p2, w2)"
    by (cases "if ec then contrastStep p1 else (p1, [])") auto
  have "v \<in> set w1 \<or> v \<in> set w2"
    using assms by (simp add: processPixel_def s1 s2)
  then show ?thesis
  proof
    assume "v \<in> set w1"
    then have "gs" and "v \<in> set (snd (grayscaleStep p))"
      using s1 by (auto split: if_splits)
    then show ?thesis
      by (simp add: grayscaleStep_range)
  next
    assume "v \<in> set w2"
    then have "ec" and "v \<in> set (snd (contrastStep p1))"
      using s2 by (auto split: if_splits)
    then show ?thesis
      by (simp add: contrastStep_range)
  qed
qed

lemma pixelLoop_range:
  "v \<in> set (snd (pixelLoop gs ec data)) \<Longrightarrow> 0 \<le> v \<and> v \<le> 255"
proof (induction gs ec data rule: pixelLoop.induct)
  case (1 gs ec r g b a rest)
  obtain q w where qw: "processPixel gs ec (r, g, b) = (q, w)"
    by (cases "processPixel gs ec (r, g, b)") auto
  obtain r' g' b' where q: "q = (r', g', b')"
    by (cases q) auto
  have pp: "processPixel gs ec (r, g, b) = ((r', g', b'), w)"
    by (simp add: qw q)
  obtain rest' ws where pl: "pixelLoop gs ec rest = (rest', ws)"
    by (cases "pixelLoop gs ec rest") auto
  from "1.prems" have "v \<in> set w \<or> v \<in> set ws"
    by (simp add: pp pl)
  then show ?case
  proof
    assume "v \<in> set w"
    then have "v \<in> set (snd (processPixel gs ec (r, g, b)))"
      by (simp add: pp)
    then show ?thesis
      by (rule processPixel_range)
  next
    assume "v \<in> set ws"
    then have "v \<in> set (snd (pixelLoop gs ec rest))"
      by (simp add: pl)
    then show ?thesis
      by (rule "1.IH" [OF pp [symmetric] refl refl refl])
  qed
qed simp_all

text \<open>
  Claim C10. Every number that \<^verbatim>\<open>preprocessImage\<close> assigns to a colour channel
  in its pixel loop, for any combination of the grayscale and contrast toggles and any
  pixel buffer, lies between 0 and 255.
\<close>

theorem C10_written_channel_values_in_range:
  "v \<in> set (snd (preprocessPixels grayscale enhanceContrast data)) \<Longrightarrow> 0 \<le> v \<and> v \<le> 255"
  by (cases "grayscale \<or> enhanceContrast")
     (simp_all add: preprocessPixels_def pixelLoop_range)

theorem C10_written_channel_values_in_range_witness:
  "(255::real) \<in> set (snd (preprocessPixels False True [250, 10, 10, 255]))
   \<and> (0::real) \<le> 255 \<and> (255::real) \<le> 255"
proof -
  have h: "(255::real) \<in> set (snd (preprocessPixels False True [250, 10, 10, 255]))"
    by (simp add: preprocessPixels_def processPixel_def contrastStep_def readByte_def Let_def)
  show ?thesis
    using h C10_written_channel_values_in_range [OF h] by simp
qed

subsection \<open>Candidate images and the 10 pixel threshold\<close>

text \<open>On the \<^verbatim>\<open>img\<close> path every candidate kept has an intersection wider and higher than 10.\<close>

lemma img_candidates_exceed_threshold:
  assumes "c \<in> set (List.map_filter (imgCandidate selectionRect) xs)"
  shows "iwidth (ii_intersection c) > 10 \<and> iheight (ii_intersection c) > 10"
proof -
  obtain p where "imgCandidate selectionRect p = Some c"
    using assms by (auto simp: List.map_filter_def)
  then show ?thesis
    by (cases p) (auto simp: imgCandidate_def Let_def split: if_splits)
qed

text \<open>
  Claim C2. \<^verbatim>\<open>detectImagesInSelection\<close> is claimed to keep an element only if its
  intersection with the selection is wider and higher than 10, for \<^verbatim>\<open>img\<close> elements
  and for elements with a background image alike. The background-image path has no
  such test: for a 100 by 100 selection whose centre lies on a 4 by 4 element with
  \<^verbatim>\<open>background-image: url("logo.png")\<close>, the element is returned with a 4 by 4
  intersection.
\<close>

theorem C2_background_image_below_threshold:
  "map ii_intersection
     (detectImagesInSelection
        \<lparr> dom_body = Some [],
          dom_imgs = [],
          dom_elementsFromPoint = (\<lambda>x y.
            if 48 \<le> x \<and> x \<le> 52 \<and> 48 \<le> y \<and> y \<le> 52 then
              [\<lparr> el_img = None,
                 el_rect = \<lparr> rect_left = 48, rect_top = 48, rect_width = 4, rect_height = 4 \<rparr>,
                 el_backgroundImage = ''url(\"logo.png\")'',
                 el_innerText = [],
                 el_textContent = [] \<rparr>]
            else []) \<rparr>
        \<lparr> sel_x = 0, sel_y = 0, sel_width = 100, sel_height = 100,
          viewportX = 0, viewportY = 0, viewportWidth = 100, viewportHeight = 100 \<rparr>)
   = [\<lparr> ix = 48, iy = 48, iwidth = 4, iheight = 4 \<rparr>]"
  by (simp add: detectImagesInSelection_def elementsAtCentre_def selectionRectOf_def
      List.map_filter_simps enumerate_eq_zip bgCandidate_def matchUrlAt_def isQuote_def
      closesUrl_def edgesOf_def overlaps_def Let_def)

subsection \<open>Selectable text: normalisation\<close>

text \<open>
  Claim C8. The selectable text is claimed to have its line endings converted to line
  feeds and every run of three or more blank lines collapsed to one blank line. The
  runs of line feeds are collapsed before the carriage returns are converted, so
  blank lines written with CR LF pass the collapse untouched: a text node holding
  \<open>a\<close>, four CR LF pairs and \<open>b\<close> yields \<open>a\<close>, four line feeds (three blank lines)
  and \<open>b\<close>.
\<close>

theorem C8_crlf_blank_lines_survive:
  "extractSelectableText
     \<lparr> dom_body = Some [TextNode (''a'' @ [CR, LF, CR, LF, CR, LF, CR, LF] @ ''b'')
          \<lparr> rect_left = 10, rect_top = 10, rect_width = 50, rect_height = 80 \<rparr>],
       dom_imgs = [],
       dom_elementsFromPoint = (\<lambda>x y. []) \<rparr>
     \<lparr> sel_x = 0, sel_y = 0, sel_width = 100, sel_height = 100,
       viewportX = 0, viewportY = 0, viewportWidth = 100, viewportHeight = 100 \<rparr>
   = Inr (''a'' @ [LF, LF, LF, LF] @ ''b'')"
  by (simp add: extractSelectableText_def textElementsOf_def walkerTexts_def acceptNode_def
      overlaps_def selectionRectOf_def elementsAtCentre_def rect_right_def rect_bottom_def
      normalizeSelectable_def replaceNewlineRuns_def flushRun_def replaceTabs_def replaceCR_def
      trim_def isWhiteSpace_def Let_def)

subsection \<open>Selectable text: duplicates\<close>

lemma fallbackTexts_appends:
  "\<exists>fb. fallbackTexts selectionRect els acc = acc @ fb \<and> distinct fb \<and> set fb \<inter> set acc = {}"
proof (induction els arbitrary: acc)
  case Nil
  show ?case by simp
next
  case (Cons el els)
  let ?text = "if el_innerText el \<noteq> [] then el_innerText el else el_textContent el"
  show ?case
  proof (cases "fallbackTexts selectionRect (el # els) acc = fallbackTexts selectionRect els acc")
    case True
    then show ?thesis using Cons.IH [of acc] by simp
  next
    case False
    then have step: "fallbackTexts selectionRect (el # els) acc
                     = fallbackTexts selectionRect els (acc @ [trim ?text])"
      and new: "trim ?text \<notin> set acc"
      by (auto simp: Let_def split: if_splits)
    obtain fb where fb:
      "fallbackTexts selectionRect els (acc @ [trim ?text]) = (acc @ [trim ?text]) @ fb"
      "distinct fb" "set fb \<inter> set (acc @ [trim ?text]) = {}"
      using Cons.IH [of "acc @ [trim ?text]"] by blast
    have "fallbackTexts selectionRect (el # els) acc = acc @ (trim ?text # fb)"
      using step fb(1) by simp
    moreover have "distinct (trim ?text # fb)"
      using fb(2,3) by auto
    moreover have "set (trim ?text # fb) \<inter> set acc = {}"
      using fb(3) new by auto
    ultimately show ?thesis by blast
  qed
qed

lemma trim_Hi: "trim ''Hi'' = ''Hi''"
  by (simp add: trim_def isWhiteSpace_def)

text \<open>
  Claim C9, as stated: every string occurs at most once among the collected text
  pieces. Two text nodes with the same content are both collected.
\<close>

theorem C9_duplicate_text_nodes_counterexample:
  "\<not> distinct (textElementsOf
      [TextNode ''Hi'' \<lparr> rect_left = 10, rect_top = 10, rect_width = 50, rect_height = 20 \<rparr>,
       TextNode ''Hi'' \<lparr> rect_left = 10, rect_top = 40, rect_width = 50, rect_height = 20 \<rparr>]
      \<lparr> dom_body = None, dom_imgs = [], dom_elementsFromPoint = (\<lambda>x y. []) \<rparr>
      \<lparr> sel_x = 0, sel_y = 0, sel_width = 100, sel_height = 100,
        viewportX = 0, viewportY = 0, viewportWidth = 100, viewportHeight = 100 \<rparr>)"
  by (simp add: textElementsOf_def walkerTexts_def acceptNode_def overlaps_def selectionRectOf_def
      elementsAtCentre_def rect_right_def rect_bottom_def trim_Hi Let_def)

text \<open>
  Claim C9, amended. The collected pieces start with the trimmed contents of the
  accepted text nodes in traversal order, repeated as often as they occur; the pieces
  contributed by the elements under the centre of the selection come after them, are
  pairwise distinct and differ from every text-node piece.
\<close>

theorem C9_fallback_appended_only_if_absent:
  "prefix (walkerTexts body (selectionRectOf selectionData)) (textElementsOf body d selectionData)
   \<and> distinct (drop (length (walkerTexts body (selectionRectOf selectionData)))
                 (textElementsOf body d selectionData))
   \<and> set (drop (length (walkerTexts body (selectionRectOf selectionData)))
             (textElementsOf body d selectionData))
     \<inter> set (walkerTexts body (selectionRectOf selectionData)) = {}"
proof -
  let ?w = "walkerTexts body (selectionRectOf selectionData)"
  obtain fb where fb: "textElementsOf body d selectionData = ?w @ fb"
    "distinct fb" "set fb \<inter> set ?w = {}"
    using fallbackTexts_appends
      [of "selectionRectOf selectionData" "elementsAtCentre d selectionData" ?w]
    by (auto simp: textElementsOf_def Let_def)
  show ?thesis
    using fb by simp
qed

subsection \<open>Runs of line feeds\<close>

lemma sublist_split_at:
  assumes "c \<notin> set xs" and "sublist xs (A @ c # B)"
  shows "sublist xs A \<or> sublist xs B"
proof -
  from assms(2) consider "sublist xs A" | "sublist xs (c # B)"
    | xs1 xs2 where "xs = xs1 @ xs2" "suffix xs1 A" "prefix xs2 (c # B)"
    by (auto simp: sublist_append)
  then show ?thesis
  proof cases
    case 1
    then show ?thesis by simp
  next
    case 2
    then have "prefix xs (c # B) \<or> sublist xs B"
      by (simp add: sublist_Cons_right)
    moreover have "xs = []" if "prefix xs (c # B)"
      using that assms(1) by (cases xs) auto
    ultimately show ?thesis by auto
  next
    case 3
    have "c \<notin> set xs2"
      using assms(1) 3(1) by simp
    then have "xs2 = []"
      using 3(3) by (cases xs2) auto
    then have "suffix xs A"
      using 3(1,2) by simp
    then show ?thesis by auto
  qed
qed

lemma flushRun_short:
  assumes "length rep < k"
  shows "length (flushRun k rep n) < k"
  using assms by (simp add: flushRun_def)

lemma replaceRuns_no_long_run:
  assumes "length rep < k"
  shows "\<not> sublist (replicate k LF) (replaceRuns k rep n s)"
proof (induction s arbitrary: n)
  case Nil
  have "length (flushRun k rep n) < length (replicate k LF)"
    using flushRun_short [OF assms] by simp
  then show ?case
    using sublist_length_le [of "replicate k LF" "flushRun k rep n"] by auto
next
  case (Cons c cs)
  show ?case
  proof (cases "c = LF")
    case True
    then show ?thesis using Cons.IH [of "Suc n"] by simp
  next
    case False
    have short: "\<not> sublist (replicate k LF) (flushRun k rep n)"
      using flushRun_short [OF assms, of n] sublist_length_le [of "replicate k LF" "flushRun k rep n"]
      by auto
    have "c \<notin> set (replicate k LF)"
      using False by auto
    then have "\<not> sublist (replicate k LF) (flushRun k rep n @ c # replaceRuns k rep 0 cs)"
      using sublist_split_at [of c "replicate k LF" "flushRun k rep n" "replaceRuns k rep 0 cs"]
        short Cons.IH [of 0] by blast
    then show ?thesis using False by simp
  qed
qed

lemma sublist_trim: "sublist (trim s) s"
proof -
  have "sublist (dropWhile isWhiteSpace (rev (dropWhile isWhiteSpace s))) (rev (dropWhile isWhiteSpace s))"
    by (rule sublist_dropWhile)
  then have "sublist (trim s) (dropWhile isWhiteSpace s)"
    unfolding trim_def by (metis rev_rev_ident sublist_rev)
  moreover have "sublist (dropWhile isWhiteSpace s) s"
    by (rule sublist_dropWhile)
  ultimately show ?thesis
    by (rule sublist_order.order.trans)
qed

lemma no_four_newlines_after_merge:
  "\<not> str_includes (trim (replaceNewlineRuns 4 [LF, LF, LF] s)) [LF, LF, LF, LF]"
proof
  assume "str_includes (trim (replaceNewlineRuns 4 [LF, LF, LF] s)) [LF, LF, LF, LF]"
  then have "sublist [LF, LF, LF, LF] (trim (replaceNewlineRuns 4 [LF, LF, LF] s))"
    by (simp add: str_includes_def)
  then have "sublist [LF, LF, LF, LF] (replaceNewlineRuns 4 [LF, LF, LF] s)"
    using sublist_trim sublist_order.order.trans by blast
  moreover have "[LF, LF, LF, LF] = replicate 4 LF"
    by (simp add: numeral_eq_Suc)
  ultimately show False
    using replaceRuns_no_long_run [of "[LF, LF, LF]" 4 0 s]
    by (simp add: replaceNewlineRuns_def)
qed

text \<open>
  What the replacement does to a run of line feeds between two pieces that do not
  touch it with a line feed, and to a string without line feeds.
\<close>

lemma replaceRuns_replicate:
  "replaceRuns k rep m (replicate n LF @ b) = replaceRuns k rep (m + n) b"
  by (induction n arbitrary: m) simp_all

lemma flushRun_zero: "0 < k \<Longrightarrow> flushRun k rep 0 = []"
  by (simp add: flushRun_def)

lemma replaceRuns_flush:
  assumes "0 < k" and "b = [] \<or> hd b \<noteq> LF"
  shows "replaceRuns k rep m b = flushRun k rep m @ replaceRuns k rep 0 b"
  using assms by (cases b) (simp_all add: flushRun_zero)

lemma replaceRuns_append:
  assumes "0 < k" and "a \<noteq> []" and "last a \<noteq> LF"
  shows "replaceRuns k rep m (a @ s) = replaceRuns k rep m a @ replaceRuns k rep 0 s"
  using assms(2,3)
proof (induction a arbitrary: m)
  case Nil
  then show ?case by simp
next
  case (Cons c a)
  show ?case
  proof (cases "a = []")
    case True
    then show ?thesis
      using Cons.prems assms(1) by (simp add: flushRun_zero)
  next
    case False
    then have "last a \<noteq> LF"
      using Cons.prems by simp
    then show ?thesis
      using Cons.IH False by simp
  qed
qed

lemma replaceNewlineRuns_run:
  assumes "0 < k" and "a = [] \<or> last a \<noteq> LF" and "b = [] \<or> hd b \<noteq> LF"
  shows "replaceNewlineRuns k rep (a @ replicate n LF @ b)
         = replaceNewlineRuns k rep a @ flushRun k rep n @ replaceNewlineRuns k rep b"
proof -
  have tail: "replaceRuns k rep 0 (replicate n LF @ b) = flushRun k rep n @ replaceRuns k rep 0 b"
    using replaceRuns_replicate [of k rep 0 n b] replaceRuns_flush [OF assms(1,3), of rep n]
    by simp
  show ?thesis
  proof (cases "a = []")
    case True
    then show ?thesis
      using tail assms(1) by (simp add: replaceNewlineRuns_def flushRun_zero)
  next
    case False
    then show ?thesis
      using replaceRuns_append [OF assms(1) False, of rep 0 "replicate n LF @ b"] assms(2) tail
      by (simp add: replaceNewlineRuns_def)
  qed
qed

lemma replaceRuns_no_newline:
  assumes "0 < k" and "LF \<notin> set s"
  shows "replaceRuns k rep 0 s = s"
  using assms(2) by (induction s) (auto simp: flushRun_zero [OF assms(1)])

text \<open>What \<^verbatim>\<open>trim\<close> removes, and what it leaves at the two ends.\<close>

lemma dropWhile_split_end:
  "d = rev (dropWhile P (rev d)) @ rev (takeWhile P (rev d))"
proof -
  have "d = rev (rev d)"
    by simp
  also have "\<dots> = rev (takeWhile P (rev d) @ dropWhile P (rev d))"
    by (simp only: takeWhile_dropWhile_id)
  also have "\<dots> = rev (dropWhile P (rev d)) @ rev (takeWhile P (rev d))"
    by (simp only: rev_append)
  finally show ?thesis .
qed

lemma trim_decompose:
  "\<exists>pre post. s = pre @ trim s @ post
     \<and> (\<forall>c \<in> set pre. isWhiteSpace c) \<and> (\<forall>c \<in> set post. isWhiteSpace c)"
proof -
  let ?d = "dropWhile isWhiteSpace s"
  have d: "?d = trim s @ rev (takeWhile isWhiteSpace (rev ?d))"
    unfolding trim_def by (rule dropWhile_split_end)
  have "s = takeWhile isWhiteSpace s @ ?d"
    by simp
  then have "s = takeWhile isWhiteSpace s @ trim s @ rev (takeWhile isWhiteSpace (rev ?d))"
    using d by simp
  moreover have "\<forall>c \<in> set (takeWhile isWhiteSpace s). isWhiteSpace c"
    by (auto dest: set_takeWhileD)
  moreover have "\<forall>c \<in> set (rev (takeWhile isWhiteSpace (rev ?d))). isWhiteSpace c"
    by (auto dest: set_takeWhileD)
  ultimately show ?thesis by blast
qed

lemma trim_ends:
  assumes "trim s \<noteq> []"
  shows "\<not> isWhiteSpace (hd (trim s)) \<and> \<not> isWhiteSpace (last (trim s))"
proof -
  let ?d = "dropWhile isWhiteSpace s"
  let ?e = "dropWhile isWhiteSpace (rev ?d)"
  have e: "?e \<noteq> []" and t: "trim s = rev ?e"
    using assms by (simp_all add: trim_def)
  have "\<not> isWhiteSpace (hd ?e)"
    using e by (rule hd_dropWhile)
  then have l: "\<not> isWhiteSpace (last (trim s))"
    using e t by (simp add: last_rev)
  have dne: "?d \<noteq> []"
  proof
    assume "?d = []"
    then have "rev ?d = []" by (simp only: rev.simps)
    then have "?e = []" by (simp only: dropWhile.simps)
    then show False using e by simp
  qed
  then have h: "\<not> isWhiteSpace (hd ?d)"
    by (rule hd_dropWhile)
  have "?d = trim s @ rev (takeWhile isWhiteSpace (rev ?d))"
    unfolding trim_def by (rule dropWhile_split_end)
  then have "hd ?d = hd (trim s)"
    using assms by (metis hd_append2)
  then show ?thesis
    using h l by simp
qed

subsection \<open>The aggregator\<close>

lemma combine_combinedText:
  "\<not> str_includes (combinedText (combine res)) [LF, LF, LF, LF]"
  by (simp add: combine_def no_four_newlines_after_merge)

lemma empty_no_newlines: "\<not> str_includes [] [LF, LF, LF, LF]"
  by (simp add: str_includes_def)

lemma tryExtract_thrown_combinedText:
  assumes "fst (tryExtract w window selectionData) = Inl (message, res)"
  shows "combinedText res = [] \<and> images res = []"
  using assms
  by (auto simp: tryExtract_def emptyResults_def Let_def
      split: sum.splits if_splits scriptLoad.splits prod.splits)

lemma tryExtract_returned_combinedText:
  assumes "fst (tryExtract w window selectionData) = Inr res"
  shows "\<exists>res0. res = combine res0"
  using assms
  by (auto simp: tryExtract_def Let_def
      split: sum.splits if_splits scriptLoad.splits prod.splits)

lemma extractTextFromSelection_cases:
  "(\<exists>res. fst (tryExtract w window selectionData) = Inr res
          \<and> fst (extractTextFromSelection w window selectionData) = Inr res)
   \<or> (\<exists>message res. fst (tryExtract w window selectionData) = Inl (message, res)
          \<and> fst (extractTextFromSelection w window selectionData)
              = Inr (res\<lparr> errors := errors res @ [ErrorString (''Extraction failed: '' @ message)] \<rparr>))"
proof (cases "tryExtract w window selectionData")
  case (fields r window1 calls)
  show ?thesis
  proof (cases r)
    case (Inl a)
    then show ?thesis using fields by (cases a) (simp add: extractTextFromSelection_def)
  next
    case (Inr b)
    then show ?thesis using fields by (simp add: extractTextFromSelection_def)
  qed
qed

lemma tryExtract_returned_combined:
  assumes "fst (tryExtract w window selectionData) = Inr res"
  shows "combinedText res
         = trim (replaceNewlineRuns 4 [LF, LF, LF] (join [LF, LF] (textParts res)))"
proof -
  obtain res0 where "res = combine res0"
    using assms tryExtract_returned_combinedText by blast
  then show ?thesis
    by (simp add: combine_def textParts_def)
qed

text \<open>
  Claim C6. Whatever the page, the OCR side and the rectangle are, the
  \<^verbatim>\<open>combinedText\<close> of the result returned by \<^verbatim>\<open>extractTextFromSelection\<close> contains no
  four consecutive line feeds. When the \<^verbatim>\<open>try\<close> block returns, \<^verbatim>\<open>combinedText\<close> is
  the text parts joined by a blank line, with the runs of line feeds replaced and the
  result trimmed. The replacement turns a run of \<open>n\<close> line feeds into exactly three when
  \<open>n\<close> is at least 4, keeps a shorter run, and keeps every other character; trimming
  removes white space at the two ends and nothing else.
\<close>

theorem C6_merge_collapses_newline_runs:
  assumes "fst (extractTextFromSelection w window selectionData) = Inr res"
  shows "\<not> str_includes (combinedText res) [LF, LF, LF, LF]
       \<and> ((\<exists>res0. fst (tryExtract w window selectionData) = Inr res0) \<longrightarrow>
            combinedText res
            = trim (replaceNewlineRuns 4 [LF, LF, LF] (join [LF, LF] (textParts res))))
       \<and> ((a = [] \<or> last a \<noteq> LF) \<and> (b = [] \<or> hd b \<noteq> LF) \<longrightarrow>
            replaceNewlineRuns 4 [LF, LF, LF] (a @ replicate n LF @ b)
            = replaceNewlineRuns 4 [LF, LF, LF] a
              @ (if 4 \<le> n then [LF, LF, LF] else replicate n LF)
              @ replaceNewlineRuns 4 [LF, LF, LF] b)
       \<and> (LF \<notin> set s \<longrightarrow> replaceNewlineRuns 4 [LF, LF, LF] s = s)
       \<and> (\<exists>pre post. t = pre @ trim t @ post
             \<and> (\<forall>c \<in> set pre. isWhiteSpace c) \<and> (\<forall>c \<in> set post. isWhiteSpace c))
       \<and> (trim t \<noteq> [] \<longrightarrow> \<not> isWhiteSpace (hd (trim t)) \<and> \<not> isWhiteSpace (last (trim t)))"
proof -
  have one: "\<not> str_includes (combinedText res) [LF, LF, LF, LF]"
  proof -
    from extractTextFromSelection_cases [of w window selectionData]
    consider res1 where "fst (tryExtract w window selectionData) = Inr res1" "res = res1"
      | message res1 where "fst (tryExtract w window selectionData) = Inl (message, res1)"
          "res = res1\<lparr> errors := errors res1 @ [ErrorString (''Extraction failed: '' @ message)] \<rparr>"
      using assms by auto
    then show ?thesis
    proof cases
      case 1
      then obtain res0 where "res = combine res0"
        using tryExtract_returned_combinedText by blast
      then show ?thesis by (simp add: combine_combinedText)
    next
      case 2
      then have "combinedText res = []"
        using tryExtract_thrown_combinedText [of w window selectionData message res1] by simp
      then show ?thesis by (simp add: empty_no_newlines)
    qed
  qed
  have two: "combinedText res
       = trim (replaceNewlineRuns 4 [LF, LF, LF] (join [LF, LF] (textParts res)))"
    if "\<exists>res0. fst (tryExtract w window selectionData) = Inr res0"
  proof -
    from that obtain res0 where r0: "fst (tryExtract w window selectionData) = Inr res0"
      by blast
    then have "res = res0"
      using assms extractTextFromSelection_cases [of w window selectionData] by auto
    then show ?thesis
      using tryExtract_returned_combined [OF r0] by simp
  qed
  have three: "replaceNewlineRuns 4 [LF, LF, LF] (a @ replicate n LF @ b)
            = replaceNewlineRuns 4 [LF, LF, LF] a
              @ (if 4 \<le> n then [LF, LF, LF] else replicate n LF)
              @ replaceNewlineRuns 4 [LF, LF, LF] b"
    if "(a = [] \<or> last a \<noteq> LF) \<and> (b = [] \<or> hd b \<noteq> LF)"
    using that replaceNewlineRuns_run [of 4 a b "[LF, LF, LF]" n]
    by (simp add: flushRun_def)
  have four: "replaceNewlineRuns 4 [LF, LF, LF] s = s" if "LF \<notin> set s"
    using that replaceRuns_no_newline [of 4 s "[LF, LF, LF]"]
    by (simp add: replaceNewlineRuns_def)
  show ?thesis
    using one two three four trim_decompose [of t] trim_ends [of t] by blast
qed

text \<open>
  Claim C1, amended. \<^verbatim>\<open>extractTextFromSelection\<close> resolves with a result for every
  page, every behaviour of the OCR side and every rectangle, whatever its size; and
  when an error is thrown inside its \<^verbatim>\<open>try\<close> block, the result has an empty
  \<^verbatim>\<open>combinedText\<close> and a non-empty \<^verbatim>\<open>errors\<close>.
\<close>

theorem C1_always_returns_a_result:
  "\<exists>res. fst (extractTextFromSelection w window selectionData) = Inr res
       \<and> ((\<exists>message res0. fst (tryExtract w window selectionData) = Inl (message, res0))
            \<longrightarrow> combinedText res = [] \<and> errors res \<noteq> [])"
proof -
  from extractTextFromSelection_cases [of w window selectionData]
  show ?thesis
  proof (elim disjE exE conjE)
    fix res
    assume "fst (tryExtract w window selectionData) = Inr res"
      and "fst (extractTextFromSelection w window selectionData) = Inr res"
    then show ?thesis by simp
  next
    fix message res
    assume t: "fst (tryExtract w window selectionData) = Inl (message, res)"
      and e: "fst (extractTextFromSelection w window selectionData)
              = Inr (res\<lparr> errors := errors res @ [ErrorString (''Extraction failed: '' @ message)] \<rparr>)"
    have "combinedText res = []"
      using tryExtract_thrown_combinedText [OF t] by simp
    then show ?thesis using e by simp
  qed
qed

text \<open>
  Claim C7. When \<^verbatim>\<open>detectImagesInSelection\<close> finds no candidate image, the result
  has no \<^verbatim>\<open>images\<close>, no call is made on the OCR side (no script load, no
  initialisation, no recognition) and \<^verbatim>\<open>window.OCRProcessor\<close> is what it was.
\<close>

theorem C7_no_images_no_ocr:
  assumes "detectImagesInSelection (w_dom w) selectionData = []"
  shows "\<exists>res. extractTextFromSelection w window selectionData = (Inr res, window, [])
             \<and> images res = []"
proof (cases "extractSelectableText (w_dom w) selectionData")
  case (Inl message)
  then show ?thesis
    by (simp add: extractTextFromSelection_def tryExtract_def emptyResults_def)
next
  case (Inr selectable)
  then show ?thesis
    using assms
    by (simp add: extractTextFromSelection_def tryExtract_def emptyResults_def combine_def Let_def)
qed

subsection \<open>The aggregator on the example pages\<close>

lemma trim_Hello: "trim ''Hello world'' = ''Hello world''"
  by (simp add: trim_def isWhiteSpace_def)

lemma hello_selectable:
  "extractSelectableText helloPage (rectangle 20 15 w h) = Inr ''Hello world''"
  if "0 \<le> w" "0 \<le> h" for w h
  using that
  by (simp add: extractSelectableText_def helloPage_def rectangle_def textElementsOf_def
      walkerTexts_def acceptNode_def overlaps_def selectionRectOf_def elementsAtCentre_def
      rect_right_def rect_bottom_def normalizeSelectable_def replaceNewlineRuns_def flushRun_def
      replaceTabs_def replaceCR_def trim_Hello Let_def)

lemma hello_no_images:
  "detectImagesInSelection helloPage sd = []"
  by (simp add: detectImagesInSelection_def helloPage_def elementsAtCentre_def
      List.map_filter_simps enumerate_eq_zip)

lemma hello_extract:
  "extractTextFromSelection (exampleWorld helloPage outcome) window (rectangle 20 15 w h)
   = (Inr \<lparr> selectableText = ''Hello world'', ocrText = [], combinedText = ''Hello world'',
            images = [], errors = [] \<rparr>, window, [])"
  if "0 \<le> w" "0 \<le> h" for w h
  using that
  by (simp add: extractTextFromSelection_def tryExtract_def exampleWorld_def hello_selectable
      hello_no_images emptyResults_def combine_def textParts_def trim_Hello replaceNewlineRuns_def
      flushRun_def)

text \<open>
  Claim C1, as stated, has \<^verbatim>\<open>extractTextFromSelection\<close> throw for a rectangle
  narrower or lower than 5. It has no test of the rectangle: on a 3 by 3 rectangle
  over the paragraph it resolves with the paragraph's text.
\<close>

theorem C1_small_rectangle_counterexample:
  "sel_width (rectangle 20 15 3 3) < 5
   \<and> fst (extractTextFromSelection (exampleWorld helloPage Pending) None (rectangle 20 15 3 3))
     = Inr \<lparr> selectableText = ''Hello world'', ocrText = [], combinedText = ''Hello world'',
             images = [], errors = [] \<rparr>"
  by (simp add: hello_extract) (simp add: rectangle_def)

theorem C7_no_images_no_ocr_witness:
  "detectImagesInSelection (w_dom (exampleWorld helloPage Pending)) (rectangle 20 15 200 100) = []
   \<and> extractTextFromSelection (exampleWorld helloPage Pending) (Some newOCRProcessor)
        (rectangle 20 15 200 100)
     = (Inr \<lparr> selectableText = ''Hello world'', ocrText = [], combinedText = ''Hello world'',
              images = [], errors = [] \<rparr>, Some newOCRProcessor, [])"
proof -
  have h: "detectImagesInSelection (w_dom (exampleWorld helloPage Pending)) (rectangle 20 15 200 100) = []"
    by (simp add: exampleWorld_def hello_no_images)
  show ?thesis
    using h C7_no_images_no_ocr [OF h, of "Some newOCRProcessor"] by (simp add: hello_extract)
qed

lemma logo_detected:
  "detectImagesInSelection logoPage (rectangle 0 0 100 100) \<noteq> []"
  by (simp add: detectImagesInSelection_def logoPage_def logoImg_def elementsAtCentre_def
      List.map_filter_simps enumerate_eq_zip imgCandidate_def edgesOf_def overlaps_def
      selectionRectOf_def rectangle_def Let_def)

lemma logo_selectable:
  "extractSelectableText logoPage sd = Inr []"
  by (simp add: extractSelectableText_def logoPage_def textElementsOf_def
      walkerTexts_def elementsAtCentre_def normalizeSelectable_def replaceNewlineRuns_def
      flushRun_def replaceTabs_def replaceCR_def trim_def Let_def)

lemma logo_script_fails:
  "tryExtract (exampleWorld logoPage Pending) None (rectangle 0 0 100 100)
   = (Inl (''Failed to load OCR processor'', emptyResults), None, [LoadOCRScript])"
  using logo_detected
  by (simp add: tryExtract_def exampleWorld_def logo_selectable emptyResults_def)

theorem C1_always_returns_a_result_witness:
  "fst (tryExtract (exampleWorld logoPage Pending) None (rectangle 0 0 100 100))
     = Inl (''Failed to load OCR processor'', emptyResults)
   \<and> fst (extractTextFromSelection (exampleWorld logoPage Pending) None (rectangle 0 0 100 100))
     = Inr \<lparr> selectableText = [], ocrText = [], combinedText = [], images = [],
             errors = [ErrorString ''Extraction failed: Failed to load OCR processor''] \<rparr>"
  using C1_always_returns_a_result
    [of "exampleWorld logoPage Pending" None "rectangle 0 0 100 100"]
  by (simp add: logo_script_fails extractTextFromSelection_def emptyResults_def)

subsection \<open>Recognition: time-out and empty text\<close>




lemma onePixel_processed:
  "processImage (engineEnv outcome) (CanvasSource onePixel) noOptions = Inr (CanvasSource grayPixel)"
  by (simp add: processImage_def noOptions_def prepareImage_def onePixel_def asCanvasSource_def
      preprocessImage_def sourceDims_def defaultPreprocessOptions_def scaleFor_def Math_round_def
      engineEnv_def preprocessPixels_def processPixel_def grayscaleStep_def contrastStep_def
      readByte_def toUint8Clamp_def grayPixel_def Let_def)

lemma ready_stays:
  "ensureInitialized env readyProcessor options = (Inr (), readyProcessor)"
  by (simp add: ensureInitialized_def readyProcessor_def)

lemma ready_language: "languageOf noOptions readyProcessor = ''eng+spa+fra''"
  by (simp add: languageOf_def noOptions_def readyProcessor_def)


subsection \<open>The OCR loop\<close>





text \<open>
  The loop is the one the aggregator runs: with a processor that is ready after
  \<^verbatim>\<open>initialize\<close>, \<^verbatim>\<open>results.images\<close> receives the loop's entries and \<^verbatim>\<open>ocrText\<close>
  is the loop's texts joined by blank lines.
\<close>

lemma ocrStage_runs_loop:
  assumes "initialize (w_ocr w) this None = (started, this1)" and "isReady this1"
    and "fst (processImages (w_ocr w) this1 0 (extractImagesForOCR w selectionData))
         = (ocrResults, newImages, newErrors)"
  shows "images (fst (ocrStage w (Some this) selectionData res)) = images res @ newImages
       \<and> ocrText (fst (ocrStage w (Some this) selectionData res))
           = (if ocrResults \<noteq> [] then join [LF, LF] ocrResults else ocrText res)"
proof -
  obtain this2 calls where
    "processImages (w_ocr w) this1 0 (extractImagesForOCR w selectionData)
     = ((ocrResults, newImages, newErrors), this2, calls)"
    using assms(3) by (cases "processImages (w_ocr w) this1 0 (extractImagesForOCR w selectionData)") auto
  then show ?thesis
    using assms(1,2) by (cases started) (simp_all add: ocrStage_def Let_def)
qed



lemma extract_ocr_path:
  assumes "extractSelectableText (w_dom w) selectionData = Inr selectable"
    and "detectImagesInSelection (w_dom w) selectionData \<noteq> []"
    and "initialize (w_ocr w) this None = (started, this1)"
    and "isReady this1"
    and "processImages (w_ocr w) this1 0 (extractImagesForOCR w selectionData)
         = ((ocrResults, newImages, newErrors), this2, calls)"
  shows "extractTextFromSelection w (Some this) selectionData
         = (Inr (combine \<lparr> selectableText = selectable,
                           ocrText = join [LF, LF] ocrResults,
                           combinedText = [],
                           images = newImages,
                           errors =
                             (case started of
                                Inl message \<Rightarrow>
                                  [ErrorObject \<lparr> er_imageIndex = None, er_src = None,
                                     er_error = ''Failed to initialize OCR processor: ''
                                        @ (if message \<noteq> [] then message else ''Unknown error''),
                                     er_type = ''initialization_failure'' \<rparr>]
                              | Inr u \<Rightarrow> [])
                             @ newErrors \<rparr>),
            Some this2, Initialize # calls)"
  using assms
  by (cases started; cases ocrResults)
     (simp_all add: extractTextFromSelection_def tryExtract_def ocrStage_def emptyResults_def
        Let_def)


subsection \<open>The aggregator on three images\<close>














lemma example_srcs: "img_src logoImg = ''logo.png''" "img_src brokenImg = ''broken.png''"
  by (simp_all add: logoImg_def brokenImg_def)






subsection \<open>A candidate that cannot be acquired\<close>

lemma engine_init:
  "initialize (engineEnv outcome) newOCRProcessor None = (Inr (), readyProcessor)"
  by (simp add: initialize_def engineEnv_def loadLanguagePreference_def
      newOCRProcessor_def readyProcessor_def)

lemma engine_logo_processed:
  "processImage (engineEnv outcome) (ImageElementSource logoImg) noOptions
   = Inr (CanvasSource grayPixel)"
  by (simp add: processImage_def noOptions_def prepareImage_def validImage_def logoImg_def
      asCanvasSource_def preprocessImage_def sourceDims_def defaultPreprocessOptions_def
      scaleFor_def Math_round_def engineEnv_def preprocessPixels_def
      processPixel_def grayscaleStep_def contrastStep_def readByte_def toUint8Clamp_def
      grayPixel_def Let_def)


lemma engine_resolves:
  assumes "processImage (engineEnv (Resolves t (Data d))) src noOptions = Inr (CanvasSource grayPixel)"
    and "\<not> isFalsy src" and "t \<le> 30000" and "trim (rd_text d) \<noteq> []"
  shows "recognizeOne (engineEnv (Resolves t (Data d))) readyProcessor
           \<lparr> id_image = src, id_info = info \<rparr>
         = (Inr \<lparr> or_text = rd_text d, or_confidence = rd_confidence d,
                  or_processingTime = 7 + t, or_warning = None \<rparr>,
            readyProcessor, [ExtractText src])"
  using assms
  by (simp add: recognizeOne_def extractText_def ready_stays ready_language extractTextBody_def
      isFalsy_def engineEnv_def race_def settlesInTime_def ocrTimeout_def readResult_def)

lemma sources_present:
  "\<not> isFalsy (ImageElementSource im)" "\<not> isFalsy (CanvasSource c)"
  by (simp_all add: isFalsy_def)

lemma matchUrl_bg:
  "matchUrl ''url(bg.png)'' = Some ''bg.png''" "matchUrl ''url(bg2.png)'' = Some ''bg2.png''"
  by (simp_all add: matchUrlAt_def isQuote_def closesUrl_def)






subsection \<open>A recognised text with a long run of line feeds\<close>

lemma logo_detected_info:
  "detectImagesInSelection logoPage (rectangle 0 0 100 100) = [imgInfo 0 logoImg]"
  by (simp add: detectImagesInSelection_def logoPage_def logoImg_def
      elementsAtCentre_def List.map_filter_simps enumerate_eq_zip imgCandidate_def edgesOf_def
      overlaps_def selectionRectOf_def rectangle_def imgInfo_def Let_def)

lemma run_acquired:
  "extractImagesForOCR runWorld (rectangle 0 0 100 100)
   = [\<lparr> id_image = ImageElementSource logoImg, id_info = DetectedInfo (imgInfo 0 logoImg) \<rparr>,
      \<lparr> id_image = CanvasSource onePixel, id_info = SelectionAreaInfo 1 1 \<rparr>]"
  by (simp add: extractImagesForOCR_def runWorld_def ocrWorld_def exampleWorld_def
      logo_detected_info List.map_filter_simps detectedEntry_def getImageData_def imgInfo_def
      captureAreaWithCanvas_def onePixel_def)

lemma trim_runText: "trim runText = runText"
  by (simp add: runText_def trim_def isWhiteSpace_def)

lemma runText_not_blank: "trim (rd_text \<lparr> rd_text = runText, rd_confidence = 80 \<rparr>) \<noteq> []"
  by (simp add: trim_runText) (simp add: runText_def)

lemma run_loop:
  "processImages (engineEnv (Resolves 1200 (Data \<lparr> rd_text = runText, rd_confidence = 80 \<rparr>)))
     readyProcessor 0 (extractImagesForOCR runWorld (rectangle 0 0 100 100))
   = (([runText, runText],
       [\<lparr> ie_src = ''logo.png'', ie_text = runText, ie_confidence = Some 80,
          ie_processingTime = Some 1207, ie_warning = None, ie_error = None \<rparr>,
        \<lparr> ie_src = ''selection-area'', ie_text = runText, ie_confidence = Some 80,
          ie_processingTime = Some 1207, ie_warning = None, ie_error = None \<rparr>],
       []),
      readyProcessor,
      [ExtractText (ImageElementSource logoImg), ExtractText (CanvasSource onePixel)])"
proof -
  have le: "(1200::nat) \<le> 30000" by simp
  have ne: "runText \<noteq> []" by (simp add: runText_def)
  show ?thesis
    using ne
    by (simp add: run_acquired
        engine_resolves [OF engine_logo_processed sources_present(1) le runText_not_blank]
        engine_resolves [OF onePixel_processed sources_present(2) le runText_not_blank]
        record_outcome_def srcOf_def imgInfo_def example_srcs trim_runText Let_def)
qed

lemma run_collapsed:
  "trim (replaceNewlineRuns 4 [LF, LF, LF] (trim (runText @ [LF, LF] @ runText))) = collapsedText"
  by (simp add: runText_def collapsedText_def trim_def isWhiteSpace_def replaceNewlineRuns_def
      flushRun_def)

lemma run_extract:
  "fst (extractTextFromSelection runWorld (Some newOCRProcessor) (rectangle 0 0 100 100))
   = Inr runResult"
proof -
  let ?sd = "rectangle 0 0 100 100"
  let ?env = "engineEnv (Resolves 1200 (Data \<lparr> rd_text = runText, rd_confidence = 80 \<rparr>))"
  have dom: "w_dom runWorld = logoPage" and env: "w_ocr runWorld = ?env"
    by (simp_all add: runWorld_def ocrWorld_def exampleWorld_def)
  have sel: "extractSelectableText (w_dom runWorld) ?sd = Inr []"
    by (simp add: dom logo_selectable)
  have det: "detectImagesInSelection (w_dom runWorld) ?sd \<noteq> []"
    by (simp add: dom logo_detected_info)
  have ini: "initialize (w_ocr runWorld) newOCRProcessor None = (Inr (), readyProcessor)"
    by (simp add: env engine_init)
  have rdy: "isReady readyProcessor"
    by (simp add: isReady_def readyProcessor_def)
  have ne: "runText \<noteq> []" by (simp add: runText_def)
  have nb: "trim (runText @ [LF, LF] @ runText) \<noteq> []"
    by (simp add: runText_def trim_def isWhiteSpace_def)
  show ?thesis
    using extract_ocr_path [OF sel det ini rdy run_loop [folded env]] ne nb run_collapsed
    by (simp add: combine_def textParts_def runResult_def)
qed

lemma tryExtract_returned_when_no_errors:
  assumes "fst (extractTextFromSelection w window selectionData) = Inr res"
    and "errors res = []"
  shows "fst (tryExtract w window selectionData) = Inr res"
proof -
  from extractTextFromSelection_cases [of w window selectionData]
  consider "fst (tryExtract w window selectionData) = Inr res"
    | message res1 where
        "res = res1\<lparr> errors := errors res1 @ [ErrorString (''Extraction failed: '' @ message)] \<rparr>"
    using assms(1) by auto
  then show ?thesis
  proof cases
    case 1
    then show ?thesis .
  next
    case 2
    then have "errors res = errors res1 @ [ErrorString (''Extraction failed: '' @ message)]"
      by simp
    then show ?thesis
      using assms(2) by simp
  qed
qed

theorem C6_merge_collapses_newline_runs_witness:
  "fst (extractTextFromSelection runWorld (Some newOCRProcessor) (rectangle 0 0 100 100))
     = Inr runResult
   \<and> fst (tryExtract runWorld (Some newOCRProcessor) (rectangle 0 0 100 100)) = Inr runResult
   \<and> textParts runResult = [runText @ [LF, LF] @ runText]
   \<and> str_includes (join [LF, LF] (textParts runResult)) [LF, LF, LF, LF]
   \<and> combinedText runResult = collapsedText
   \<and> \<not> str_includes collapsedText [LF, LF, LF, LF]
   \<and> last ''x'' \<noteq> LF \<and> hd ''y'' \<noteq> LF
   \<and> replaceNewlineRuns 4 [LF, LF, LF] (''x'' @ replicate 5 LF @ ''y'') = ''x'' @ [LF, LF, LF] @ ''y''
   \<and> LF \<notin> set ''xy''
   \<and> replaceNewlineRuns 4 [LF, LF, LF] ''xy'' = ''xy''
   \<and> trim ([CHR 0x20, LF] @ ''xy'' @ [CHR 0x20]) = ''xy''"
proof -
  let ?w = runWorld and ?win = "Some newOCRProcessor" and ?sd = "rectangle 0 0 100 100"
  have errs: "errors runResult = []" and comb: "combinedText runResult = collapsedText"
    by (simp_all add: runResult_def)
  have same: "fst (tryExtract ?w ?win ?sd) = Inr runResult"
    using run_extract errs by (rule tryExtract_returned_when_no_errors)
  have parts: "textParts runResult = [runText @ [LF, LF] @ runText]"
    by (simp add: textParts_def runResult_def runText_def trim_def isWhiteSpace_def)
  have before: "str_includes (join [LF, LF] (textParts runResult)) [LF, LF, LF, LF]"
    by (simp add: parts) (simp add: runText_def str_includes_def sublist_code)
  have ends: "last ''x'' \<noteq> LF" "hd ''y'' \<noteq> LF" "LF \<notin> set ''xy''"
    by simp_all
  have xy: "replaceNewlineRuns 4 [LF, LF, LF] ''x'' = ''x''"
    "replaceNewlineRuns 4 [LF, LF, LF] ''y'' = ''y''"
    by (simp_all add: replaceNewlineRuns_def flushRun_def)
  have tr: "trim ([CHR 0x20, LF] @ ''xy'' @ [CHR 0x20]) = ''xy''"
    by (simp add: trim_def isWhiteSpace_def)
  note inst = C6_merge_collapses_newline_runs [OF run_extract,
      where a = "''x''" and b = "''y''" and n = 5 and s = "''xy''"
        and t = "[CHR 0x20, LF] @ ''xy'' @ [CHR 0x20]"]
  have no4: "\<not> str_includes collapsedText [LF, LF, LF, LF]"
    using inst comb by simp
  have run: "replaceNewlineRuns 4 [LF, LF, LF] (''x'' @ replicate 5 LF @ ''y'')
             = ''x'' @ [LF, LF, LF] @ ''y''"
    using inst ends xy by simp
  have keep: "replaceNewlineRuns 4 [LF, LF, LF] ''xy'' = ''xy''"
    using inst ends by simp
  show ?thesis
    using run_extract same parts before comb no4 ends(1,2) run ends(3) keep tr by blast
qed

subsection \<open>Pointer-up on the selection overlay\<close>

lemma handleSelectionComplete_extracts:
  "Extract sd \<in> set (snd (handleSelectionComplete (Some extract) st sd))"
  by (cases "extract sd") (simp_all add: handleSelectionComplete_def Let_def)

text \<open>
  What \<^verbatim>\<open>handleMouseUp\<close> does while a drag is in progress and the selection box
  exists: a box at most 5 wide or at most 5 high is dropped, the overlay is removed
  and nothing is extracted or sent; a box more than 5 wide and more than 5 high is
  handed to \<^verbatim>\<open>handleSelectionComplete\<close>, which calls the extractor on it when there
  is one.
\<close>

lemma handleMouseUp_threshold:
  assumes "isSelectionModeActive st" and "isSelecting st" and "selectionBox st = Some box"
  shows "(rect_width rect \<le> 5 \<or> rect_height rect \<le> 5 \<longrightarrow>
            snd (handleMouseUp extractor rect scrollX scrollY st) = []
            \<and> \<not> selectionOverlay (fst (handleMouseUp extractor rect scrollX scrollY st))
            \<and> selectionBox (fst (handleMouseUp extractor rect scrollX scrollY st)) = None)
       \<and> (rect_width rect > 5 \<and> rect_height rect > 5 \<longrightarrow>
            handleMouseUp extractor rect scrollX scrollY st
            = handleSelectionComplete extractor (st\<lparr> isSelecting := False \<rparr>)
                \<lparr> sel_x = rect_left rect + scrollX, sel_y = rect_top rect + scrollY,
                  sel_width = rect_width rect, sel_height = rect_height rect,
                  viewportX = rect_left rect, viewportY = rect_top rect,
                  viewportWidth = rect_width rect, viewportHeight = rect_height rect \<rparr>
            \<and> (\<forall>extract. extractor = Some extract \<longrightarrow>
                  Extract \<lparr> sel_x = rect_left rect + scrollX, sel_y = rect_top rect + scrollY,
                      sel_width = rect_width rect, sel_height = rect_height rect,
                      viewportX = rect_left rect, viewportY = rect_top rect,
                      viewportWidth = rect_width rect, viewportHeight = rect_height rect \<rparr>
                  \<in> set (snd (handleMouseUp extractor rect scrollX scrollY st))))"
proof -
  let ?sd = "\<lparr> sel_x = rect_left rect + scrollX, sel_y = rect_top rect + scrollY,
                sel_width = rect_width rect, sel_height = rect_height rect,
                viewportX = rect_left rect, viewportY = rect_top rect,
                viewportWidth = rect_width rect, viewportHeight = rect_height rect \<rparr>"
  have small: "handleMouseUp extractor rect scrollX scrollY st
             = (removeSelectionOverlay (st\<lparr> isSelecting := False \<rparr>), [])"
    if "rect_width rect \<le> 5 \<or> rect_height rect \<le> 5"
    using that assms by (auto simp: handleMouseUp_def Let_def)
  have big: "handleMouseUp extractor rect scrollX scrollY st
            = handleSelectionComplete extractor (st\<lparr> isSelecting := False \<rparr>) ?sd"
    if "rect_width rect > 5 \<and> rect_height rect > 5"
    using that assms by (simp add: handleMouseUp_def Let_def)
  have invoked: "Extract ?sd \<in> set (snd (handleMouseUp extractor rect scrollX scrollY st))"
    if "rect_width rect > 5 \<and> rect_height rect > 5" and "extractor = Some f" for f
    using big [OF that(1)] that(2) handleSelectionComplete_extracts [of ?sd f] by simp
  show ?thesis
    using small big invoked by (simp add: removeSelectionOverlay_def)
qed

text \<open>
  Claim C5. A rectangle is cancelled when its width or height is below 5, and is
  committed otherwise. A 5 by 5 rectangle is not below 5 in either dimension, yet
  \<^verbatim>\<open>handleMouseUp\<close> tests \<^verbatim>\<open>width > 5 && height > 5\<close>: the rectangle is dropped, the
  box is removed and the extractor is not called.
\<close>

theorem C5_five_by_five_cancelled:
  "\<not> (rect_width \<lparr> rect_left = 10, rect_top = 10, rect_width = 5, rect_height = 5 \<rparr> < 5
      \<or> rect_height \<lparr> rect_left = 10, rect_top = 10, rect_width = 5, rect_height = 5 \<rparr> < 5)
   \<and> snd (handleMouseUp (Some exampleExtractor)
            \<lparr> rect_left = 10, rect_top = 10, rect_width = 5, rect_height = 5 \<rparr> 0 0
            draggingOverlay) = []
   \<and> selectionBox (fst (handleMouseUp (Some exampleExtractor)
            \<lparr> rect_left = 10, rect_top = 10, rect_width = 5, rect_height = 5 \<rparr> 0 0
            draggingOverlay)) = None"
  by (simp add: handleMouseUp_def draggingOverlay_def removeSelectionOverlay_def Let_def)

theorem C5_five_by_five_cancelled_witness:
  "isSelectionModeActive draggingOverlay
   \<and> isSelecting draggingOverlay
   \<and> selectionBox draggingOverlay
       = Some \<lparr> bs_left = 10, bs_top = 10, bs_width = 5, bs_height = 5, bs_display = True \<rparr>
   \<and> snd (handleMouseUp (Some exampleExtractor)
            \<lparr> rect_left = 10, rect_top = 10, rect_width = 5, rect_height = 5 \<rparr> 0 0
            draggingOverlay) = []"
  using C5_five_by_five_cancelled by (simp add: draggingOverlay_def)

text \<open>A 3 by 3 rectangle is dropped as well, and a 200 by 100 rectangle is extracted.\<close>

lemma handleMouseUp_threshold_examples:
  "snd (handleMouseUp (Some exampleExtractor)
            \<lparr> rect_left = 20, rect_top = 15, rect_width = 3, rect_height = 3 \<rparr> 0 0
            draggingOverlay) = []
   \<and> Extract (rectangle 20 15 200 100)
       \<in> set (snd (handleMouseUp (Some exampleExtractor)
            \<lparr> rect_left = 20, rect_top = 15, rect_width = 200, rect_height = 100 \<rparr> 0 0
            draggingOverlay))"
proof -
  have a: "isSelectionModeActive draggingOverlay" and b: "isSelecting draggingOverlay"
    and c: "selectionBox draggingOverlay
       = Some \<lparr> bs_left = 10, bs_top = 10, bs_width = 5, bs_height = 5, bs_display = True \<rparr>"
    by (simp_all add: draggingOverlay_def)
  show ?thesis
    using handleMouseUp_threshold [OF a b c, of
        "\<lparr> rect_left = 20, rect_top = 15, rect_width = 3, rect_height = 3 \<rparr>"
        "Some exampleExtractor" 0 0]
      handleMouseUp_threshold [OF a b c, of
        "\<lparr> rect_left = 20, rect_top = 15, rect_width = 200, rect_height = 100 \<rparr>"
        "Some exampleExtractor" 0 0]
    by (simp add: rectangle_def handleSelectionComplete_extracts)
qed

end
